theory Spec2Isabelle
  imports Main "HOL-Library.Word"
begin

section \<open>The sharded row cache of cachelib\_cache.cpp\<close>

text \<open>
  The file under study is \<^verbatim>\<open>fbgemm_gpu/src/split_embeddings_cache/cachelib_cache.cpp\<close>:
  the class \<^verbatim>\<open>CacheLibCache\<close>, a cache of embedding rows keyed by a 64-bit integer, built
  on CacheLib's \<^verbatim>\<open>LruAllocator\<close>. Each member function of the file is embedded below under
  its own name. Everything that can go wrong in the C++ (an exception, an aborting check, a
  null dereference, an access outside a buffer) is a value of the type \<open>error\<close>, and a
  function that can fail returns \<open>error + 'a\<close> with \<open>Inl\<close> for the failure.

  Three things the file uses are declared elsewhere and are parameters of the model:
  \<^item> \<^verbatim>\<open>kv_db_utils::hash_shard\<close> is the argument \<open>hash_shard\<close> of the functions that route a key;
  \<^item> the macro \<^verbatim>\<open>FBGEMM_DISPATCH_FLOAT_HALF_AND_BYTE\<close> is the argument \<open>dispatch\<close>, the set
    of scalar types the macro has a case for (it raises for every other type);
  \<^item> the \<^verbatim>\<open>LruAllocator\<close> is the record \<open>LruAllocator\<close> together with the replies
    \<open>alloc_reply\<close>: which items an allocation evicts and whether it returns a handle is the
    allocator's decision and is an argument of \<open>put\<close>.
\<close>

subsection \<open>Bytes, scalar types, errors\<close>

type_synonym byte = "8 word"

text \<open>
  The scalar types the file names (\<^verbatim>\<open>at::kByte\<close>, \<^verbatim>\<open>at::kHalf\<close>, \<^verbatim>\<open>at::kFloat\<close>,
  \<^verbatim>\<open>at::kDouble\<close>, \<^verbatim>\<open>at::kLong\<close>), and two more that a caller's tensor can carry.
\<close>

datatype ScalarType = kByte | kHalf | kFloat | kDouble | kLong | kInt | kBFloat16

fun elementSize :: "ScalarType \<Rightarrow> nat" where
  "elementSize kByte = 1"
| "elementSize kHalf = 2"
| "elementSize kFloat = 4"
| "elementSize kDouble = 8"
| "elementSize kLong = 8"
| "elementSize kInt = 4"
| "elementSize kBFloat16 = 2"

datatype error =
    runtime_error string \<comment> \<open>\<^verbatim>\<open>throw std::runtime_error(...)\<close>\<close>
  | not_implemented string \<comment> \<open>the dispatch macro has no case for the scalar type\<close>
  | null_dereference \<comment> \<open>\<^verbatim>\<open>p->f()\<close> on a null \<^verbatim>\<open>shared_ptr\<close>\<close>
  | dtype_mismatch \<comment> \<open>\<^verbatim>\<open>data_ptr<T>()\<close> on a tensor of another scalar type\<close>
  | out_of_bounds \<comment> \<open>a read or a write outside the buffer\<close>
  | check_failed \<comment> \<open>\<^verbatim>\<open>CHECK_EQ\<close> aborts the process\<close>
  | division_by_zero
  | invalid_argument \<comment> \<open>the tensor library rejects a size or a dimension\<close>

text \<open>
  The one free function of the file. Its parameter is a C++ \<^verbatim>\<open>int\<close>, 32 bits wide: an
  argument of a wider type reaches it with its low 32 bits only.
\<close>

definition bytes_to_dtype :: "32 word \<Rightarrow> error + ScalarType" where
  "bytes_to_dtype num_bytes =
     (if num_bytes = 1 then Inr kByte
      else if num_bytes = 2 then Inr kHalf
      else if num_bytes = 4 then Inr kFloat
      else if num_bytes = 8 then Inr kDouble
      else Inl (runtime_error ''Unsupported dtype''))"

subsection \<open>Keys as byte strings\<close>

text \<open>
  \<^verbatim>\<open>folly::StringPiece(reinterpret_cast<const char*>(&key), sizeof(int64_t))\<close> is the eight
  bytes of the key as they lie in memory, least significant byte first on the little-endian
  machines the library is built for; \<^verbatim>\<open>*reinterpret_cast<const int64_t*>(getKey().data())\<close>
  reads eight bytes back, and reads past the end of a shorter key.
\<close>

definition key_bytes :: "64 word \<Rightarrow> byte list" where
  "key_bytes k = map (\<lambda>i. ucast (drop_bit (8 * i) k)) [0..<8]"

fun le_value :: "byte list \<Rightarrow> 64 word" where
  "le_value [] = 0"
| "le_value (b # bs) = ucast b + push_bit 8 (le_value bs)"

definition read_int64 :: "byte list \<Rightarrow> 64 word option" where
  "read_int64 bs = (if length bs < 8 then None else Some (le_value (take 8 bs)))"

text \<open>\<^verbatim>\<open>fmt::format("{}", n)\<close> for the pool names and the log line.\<close>

function show_nat :: "nat \<Rightarrow> string" where
  "show_nat n =
     (if n < 10 then [char_of (48 + n)]
      else show_nat (n div 10) @ [char_of (48 + n mod 10)])"
  by pat_completeness auto
termination
  by (relation "measure id") auto

declare show_nat.simps [simp del]

definition show_int :: "int \<Rightarrow> string" where
  "show_int i = (if i < 0 then CHR ''-'' # show_nat (nat (- i)) else show_nat (nat i))"

subsection \<open>Tensors\<close>

text \<open>
  A one-dimensional tensor is its scalar type and the values of its elements; a
  two-dimensional one is its scalar type, its second dimension (\<^verbatim>\<open>size(1)\<close>) and the bytes
  of each row. \<^verbatim>\<open>at::empty\<close> does not initialise memory: an element or a row that has not been
  written is \<open>None\<close>. A tensor passed in only for its options is a \<open>TensorArg\<close>; the row
  handed to \<open>put\<close> is the list of its \<^verbatim>\<open>nbytes()\<close> bytes.
\<close>

record Tensor1 =
  t1_dtype :: ScalarType
  t1_data :: "int option list"

record Tensor2 =
  t2_dtype :: ScalarType
  t2_dim :: nat
  t2_rows :: "byte list option list"

record TensorArg =
  a_dtype :: ScalarType
  a_sizes :: "nat list"

definition at_empty1 :: "nat \<Rightarrow> ScalarType \<Rightarrow> Tensor1" where
  "at_empty1 n dt = \<lparr>t1_dtype = dt, t1_data = replicate n None\<rparr>"

definition at_empty2 :: "nat \<Rightarrow> nat \<Rightarrow> ScalarType \<Rightarrow> Tensor2" where
  "at_empty2 n d dt = \<lparr>t2_dtype = dt, t2_dim = d, t2_rows = replicate n None\<rparr>"

text \<open>
  \<^verbatim>\<open>at::ones(n, dtype) * -1\<close>: every element is \<open>-1\<close>, which in the unsigned byte type
  wraps to 255.
\<close>

definition minus_one :: "ScalarType \<Rightarrow> int" where
  "minus_one dt = (if dt = kByte then 255 else - 1)"

definition at_ones_times_minus_one :: "nat \<Rightarrow> ScalarType \<Rightarrow> Tensor1" where
  "at_ones_times_minus_one n dt = \<lparr>t1_dtype = dt, t1_data = replicate n (Some (minus_one dt))\<rparr>"

subsection \<open>The allocator\<close>

text \<open>
  Modelled from the spec: the \<^verbatim>\<open>LruAllocator\<close> is CacheLib's, not this repository's; the
  specification takes it as "an allocator that supports named memory pools,
  capacity-bounded slab/item allocation, insert-or-replace semantics, and a removal callback
  invoked synchronously on eviction or explicit deletion". Its state here is the configured
  size, the usable size it reports (\<^verbatim>\<open>getCacheMemoryStats().ramCacheSize\<close>), the pools in
  the order of their creation (a \<^verbatim>\<open>PoolId\<close> is the position), and the live items, the most
  recently inserted first. The index is global: \<^verbatim>\<open>find\<close> looks a key up in all pools.
\<close>

record Item =
  poolId :: nat
  getKey :: "byte list"
  getMemory :: "byte list"

datatype RemoveContext = kNormal | kEviction

record RemoveCbData =
  rm_context :: RemoveContext
  rm_item :: Item

record LruAllocator =
  cacheSize :: nat
  cacheName :: string
  ramCacheSize :: nat
  pools :: "(string \<times> nat) list"
  items :: "Item list"

definition addPool :: "LruAllocator \<Rightarrow> string \<Rightarrow> nat \<Rightarrow> nat \<times> LruAllocator" where
  "addPool c name sz = (length (pools c), c\<lparr>pools := pools c @ [(name, sz)]\<rparr>)"

definition cache_find :: "LruAllocator \<Rightarrow> byte list \<Rightarrow> Item option" where
  "cache_find c k = find (\<lambda>it. getKey it = k) (items c)"

definition numItems :: "LruAllocator \<Rightarrow> nat \<Rightarrow> nat" where
  "numItems c pid = length (filter (\<lambda>it. poolId it = pid) (items c))"

text \<open>
  The allocator's reply to one \<^verbatim>\<open>allocate\<close>: the items it evicts to make room, in order,
  and whether it hands out memory. The policy that chooses them is the allocator's own.
\<close>

record alloc_reply =
  evicted :: "Item list"
  granted :: bool

subsection \<open>The engine\<close>

text \<open>
  \<^verbatim>\<open>CacheConfig\<close> is declared in the header of the class; these are the four fields the
  file reads. Their integer types are not visible in the file; the file treats the sizes as
  64-bit quantities (the cast to \<^verbatim>\<open>uint64_t\<close>, the \<^verbatim>\<open>size_t\<close> loop bound), and they are
  natural numbers here. Where the file passes one on to a narrower type, the narrowing is
  written out.
\<close>

record CacheConfig =
  cache_size_bytes :: nat
  item_size_bytes :: nat
  num_shards :: nat
  max_D :: nat

text \<open>
  The members of \<^verbatim>\<open>CacheLibCache\<close> the file reads and writes. A name cannot end in an
  underscore here, so the member \<^verbatim>\<open>cache_\<close> is \<open>m_cache\<close>, \<^verbatim>\<open>pool_ids_\<close> is
  \<open>m_pool_ids\<close> and so on, and \<^verbatim>\<open>max_D_\<close> is \<open>max_D\<close>. A null \<^verbatim>\<open>shared_ptr\<close> is
  \<open>None\<close>. \<open>xlog\<close> collects the lines written with \<^verbatim>\<open>XLOG(ERR)\<close>.
\<close>

record CacheLibCache =
  m_cache_config :: CacheConfig
  m_cache :: LruAllocator
  m_pool_ids :: "nat list"
  m_evicted_indices_ptr :: "Tensor1 option"
  m_evicted_weights_ptr :: "Tensor2 option"
  eviction_row_id :: nat
  xlog :: "string list"

text \<open>
  The removal callback registered in \<^verbatim>\<open>initializeCacheLib\<close>. The dispatch on
  \<^verbatim>\<open>evicted_weights_ptr_->scalar_type()\<close> comes first, for every removal; the test of the
  removal context is inside it.
\<close>

definition eviction_cb ::
  "(ScalarType \<Rightarrow> bool) \<Rightarrow> CacheLibCache \<Rightarrow> RemoveCbData \<Rightarrow> error + CacheLibCache" where
  "eviction_cb dispatch st data =
     (case m_evicted_weights_ptr st of
        None \<Rightarrow> Inl null_dereference
      | Some weights \<Rightarrow>
          if \<not> dispatch (t2_dtype weights) then Inl (not_implemented ''l2_eviction_handling'')
          else if rm_context data = kEviction then
            (case m_evicted_indices_ptr st of
               None \<Rightarrow> Inl null_dereference
             | Some indices \<Rightarrow>
                 if t1_dtype indices \<noteq> kLong then Inl dtype_mismatch
                 else
                   let row_id = eviction_row_id st;
                       weight_dim = t2_dim weights;
                       nb = weight_dim * elementSize (t2_dtype weights);
                       mem = getMemory (rm_item data)
                   in (case read_int64 (getKey (rm_item data)) of
                         None \<Rightarrow> Inl out_of_bounds
                       | Some key \<Rightarrow>
                           if length (t1_data indices) \<le> row_id then Inl out_of_bounds
                           else if length mem < nb then Inl out_of_bounds
                           else if length (t2_rows weights) \<le> row_id then Inl out_of_bounds
                           else Inr (st
                             \<lparr>m_evicted_indices_ptr :=
                                Some (indices\<lparr>t1_data := (t1_data indices)[row_id := Some (sint key)]\<rparr>),
                              m_evicted_weights_ptr :=
                                Some (weights\<lparr>t2_rows := (t2_rows weights)[row_id := Some (take nb mem)]\<rparr>),
                              eviction_row_id := row_id + 1\<rparr>)))
          else Inr st)"

text \<open>The allocator notifies the callback of each removal in turn.\<close>

fun notify ::
  "(ScalarType \<Rightarrow> bool) \<Rightarrow> CacheLibCache \<Rightarrow> RemoveCbData list \<Rightarrow> error + CacheLibCache" where
  "notify dispatch st [] = Inr st"
| "notify dispatch st (d # ds) =
     (case eviction_cb dispatch st d of
        Inl e \<Rightarrow> Inl e
      | Inr st' \<Rightarrow> notify dispatch st' ds)"

definition initializeCacheLib :: "CacheConfig \<Rightarrow> nat \<Rightarrow> LruAllocator" where
  "initializeCacheLib config ram =
     \<lparr>cacheSize = cache_size_bytes config, cacheName = ''TBEL2Cache'',
      ramCacheSize = ram, pools = [], items = []\<rparr>"

text \<open>
  The constructor. \<open>ram\<close> is the usable size the allocator reports once it is built for the
  configured size. The loop adds the pools \<^verbatim>\<open>shard_0\<close>, \<^verbatim>\<open>shard_1\<close>, ... in turn. The
  initialiser list names neither of the two shared pointers, which therefore start null, nor
  the cursor, which is taken to start at 0.
\<close>

fun add_shard_pools ::
  "nat \<Rightarrow> nat list \<Rightarrow> LruAllocator \<times> nat list \<Rightarrow> LruAllocator \<times> nat list" where
  "add_shard_pools n [] acc = acc"
| "add_shard_pools n (i # is) (c, ids) =
     (let (pid, c') = addPool c (''shard_'' @ show_nat i) (ramCacheSize c div n)
      in add_shard_pools n is (c', ids @ [pid]))"

definition CacheLibCache_new :: "CacheConfig \<Rightarrow> nat \<Rightarrow> CacheLibCache" where
  "CacheLibCache_new cache_config ram =
     (let (c, ids) = add_shard_pools (num_shards cache_config) [0..<num_shards cache_config]
                       (initializeCacheLib cache_config ram, [])
      in \<lparr>m_cache_config = cache_config, m_cache = c, m_pool_ids = ids,
          m_evicted_indices_ptr = None, m_evicted_weights_ptr = None,
          eviction_row_id = 0, xlog = []\<rparr>)"

definition get :: "CacheLibCache \<Rightarrow> 64 word \<Rightarrow> byte list option" where
  "get st key =
     (let key_str = key_bytes key
      in case cache_find (m_cache st) key_str of
           None \<Rightarrow> None
         | Some item \<Rightarrow> Some (getMemory item))"

definition get_shard_id :: "(64 word \<Rightarrow> nat \<Rightarrow> nat) \<Rightarrow> CacheLibCache \<Rightarrow> 64 word \<Rightarrow> nat" where
  "get_shard_id hash_shard st key = hash_shard key (length (m_pool_ids st))"

definition get_pool_id ::
  "(64 word \<Rightarrow> nat \<Rightarrow> nat) \<Rightarrow> CacheLibCache \<Rightarrow> 64 word \<Rightarrow> error + nat" where
  "get_pool_id hash_shard st key =
     (let i = get_shard_id hash_shard st key
      in if i < length (m_pool_ids st) then Inr (m_pool_ids st ! i) else Inl out_of_bounds)"

text \<open>
  \<^verbatim>\<open>cache_->allocate(pool, key, size)\<close>: the evicted items leave the index and the callback
  hears of each with the context \<^verbatim>\<open>kEviction\<close>; the handle, when there is one, is a fresh
  item of \<open>size\<close> bytes that is not in the index yet.
\<close>

definition allocate ::
  "(ScalarType \<Rightarrow> bool) \<Rightarrow> CacheLibCache \<Rightarrow> nat \<Rightarrow> byte list \<Rightarrow> nat \<Rightarrow> alloc_reply
     \<Rightarrow> error + (CacheLibCache \<times> Item option)" where
  "allocate dispatch st pid key sz reply =
     (let c = m_cache st;
          st1 = st\<lparr>m_cache := c\<lparr>items := filter (\<lambda>it. it \<notin> set (evicted reply)) (items c)\<rparr>\<rparr>
      in case notify dispatch st1
                (map (\<lambda>it. \<lparr>rm_context = kEviction, rm_item = it\<rparr>) (evicted reply)) of
           Inl e \<Rightarrow> Inl e
         | Inr st2 \<Rightarrow>
             Inr (st2, if granted reply
                       then Some \<lparr>poolId = pid, getKey = key, getMemory = replicate sz 0\<rparr>
                       else None))"

text \<open>
  \<^verbatim>\<open>cache_->insertOrReplace(item)\<close>: the item takes the place of the one with its key, if
  any, and the callback hears of the replaced one with the context \<^verbatim>\<open>kNormal\<close>.
\<close>

definition insertOrReplace ::
  "(ScalarType \<Rightarrow> bool) \<Rightarrow> CacheLibCache \<Rightarrow> Item \<Rightarrow> error + CacheLibCache" where
  "insertOrReplace dispatch st item =
     (let c = m_cache st;
          replaced = cache_find c (getKey item);
          st1 = st\<lparr>m_cache := c\<lparr>items := item # filter (\<lambda>it. getKey it \<noteq> getKey item) (items c)\<rparr>\<rparr>
      in notify dispatch st1
           (case replaced of
              None \<Rightarrow> []
            | Some old \<Rightarrow> [\<lparr>rm_context = kNormal, rm_item = old\<rparr>]))"

definition memcpy :: "byte list \<Rightarrow> byte list \<Rightarrow> nat \<Rightarrow> byte list" where
  "memcpy dst src n = take n src @ drop n dst"

definition put ::
  "(64 word \<Rightarrow> nat \<Rightarrow> nat) \<Rightarrow> (ScalarType \<Rightarrow> bool) \<Rightarrow> CacheLibCache \<Rightarrow> 64 word \<Rightarrow> byte list
     \<Rightarrow> alloc_reply \<Rightarrow> error + (bool \<times> CacheLibCache)" where
  "put hash_shard dispatch st key data reply =
     (let key_str = key_bytes key
      in case get_pool_id hash_shard st key of
           Inl e \<Rightarrow> Inl e
         | Inr pid \<Rightarrow>
             (case allocate dispatch st pid key_str (length data) reply of
                Inl e \<Rightarrow> Inl e
              | Inr (st1, None) \<Rightarrow>
                  Inr (False,
                       st1\<lparr>xlog := xlog st1 @
                         [''Failed to allocate item '' @ show_int (sint key) @ '' in cache, skip'']\<rparr>)
              | Inr (st1, Some item) \<Rightarrow>
                  (case insertOrReplace dispatch st1
                          (item\<lparr>getMemory := memcpy (getMemory item) data (length data)\<rparr>) of
                     Inl e \<Rightarrow> Inl e
                   | Inr st2 \<Rightarrow> Inr (True, st2))))"

text \<open>A batch of \<^verbatim>\<open>put\<close> calls, as the caller's loop makes them; the first failure ends it.\<close>

fun put_batch ::
  "(64 word \<Rightarrow> nat \<Rightarrow> nat) \<Rightarrow> (ScalarType \<Rightarrow> bool) \<Rightarrow> CacheLibCache
     \<Rightarrow> (64 word \<times> byte list \<times> alloc_reply) list \<Rightarrow> error + CacheLibCache" where
  "put_batch hash_shard dispatch st [] = Inr st"
| "put_batch hash_shard dispatch st ((key, data, reply) # ops) =
     (case put hash_shard dispatch st key data reply of
        Inl e \<Rightarrow> Inl e
      | Inr (ok, st') \<Rightarrow> put_batch hash_shard dispatch st' ops)"

text \<open>
  \<^verbatim>\<open>get_all_items\<close>. The loop over the cache writes the key and the first
  \<^verbatim>\<open>weight_dim\<close> elements of each item at the running index; \<open>nb\<close> is the number of bytes
  of that many elements.
\<close>

fun scan_items ::
  "nat \<Rightarrow> nat \<Rightarrow> Item list \<Rightarrow> int option list \<times> byte list option list
     \<Rightarrow> error + (nat \<times> int option list \<times> byte list option list)" where
  "scan_items nb item_idx [] (ks, rs) = Inr (item_idx, ks, rs)"
| "scan_items nb item_idx (it # its) (ks, rs) =
     (case read_int64 (getKey it) of
        None \<Rightarrow> Inl out_of_bounds
      | Some key \<Rightarrow>
          if length ks \<le> item_idx then Inl out_of_bounds
          else if length (getMemory it) < nb then Inl out_of_bounds
          else if length rs \<le> item_idx then Inl out_of_bounds
          else scan_items nb (item_idx + 1) its
                 (ks[item_idx := Some (sint key)], rs[item_idx := Some (take nb (getMemory it))]))"

text \<open>
  The body of \<^verbatim>\<open>get_all_items\<close> from the count on: \<open>total_num_items\<close> is the counter of
  the first loop, a C++ \<^verbatim>\<open>int\<close> of 32 bits read as a signed number, and \<open>visited\<close> is what
  the iteration from \<^verbatim>\<open>cache_->begin()\<close> to \<^verbatim>\<open>cache_->end()\<close> yields. They are separate
  arguments so that a cache that changes between the count and the iteration can be
  described. The quotient \<^verbatim>\<open>item_size_bytes / weight_dim\<close> is narrowed to the \<^verbatim>\<open>int\<close>
  parameter of \<^verbatim>\<open>bytes_to_dtype\<close>; \<^verbatim>\<open>at::empty\<close> raises for a negative size; the running
  index is an \<^verbatim>\<open>int64_t\<close> that never passes the length of the arrays, which is below
  \<open>2 ^ 31\<close>, and is a natural number here.
\<close>

definition get_all_items_scan ::
  "(ScalarType \<Rightarrow> bool) \<Rightarrow> CacheConfig \<Rightarrow> 32 word \<Rightarrow> Item list
     \<Rightarrow> error + (Tensor1 \<times> Tensor2 \<times> Tensor1)" where
  "get_all_items_scan dispatch cfg total_num_items visited =
     (let weight_dim = max_D cfg
      in if weight_dim = 0 then Inl division_by_zero
         else
           (case bytes_to_dtype (of_nat (item_size_bytes cfg div weight_dim)) of
              Inl e \<Rightarrow> Inl e
            | Inr weights_dtype \<Rightarrow>
                if sint total_num_items < 0 then Inl invalid_argument
                else
                  let indices = at_empty1 (nat (sint total_num_items)) kLong;
                      weights = at_empty2 (nat (sint total_num_items)) weight_dim weights_dtype
                  in if \<not> dispatch (t2_dtype weights)
                     then Inl (not_implemented ''get_all_items'')
                     else
                       (case scan_items (weight_dim * elementSize (t2_dtype weights)) 0 visited
                               (t1_data indices, t2_rows weights) of
                          Inl e \<Rightarrow> Inl e
                        | Inr (item_idx, ks, rs) \<Rightarrow>
                            if sint total_num_items \<noteq> int item_idx then Inl check_failed
                            else Inr (indices\<lparr>t1_data := ks\<rparr>, weights\<lparr>t2_rows := rs\<rparr>,
                                      \<lparr>t1_dtype = kLong,
                                       t1_data = [Some (sint total_num_items)]\<rparr>))))"

text \<open>
  The first loop of \<^verbatim>\<open>get_all_items\<close> adds the item count of every pool to the
  \<^verbatim>\<open>int total_num_items\<close>, which keeps the low 32 bits of the sum.
\<close>

definition get_all_items ::
  "(ScalarType \<Rightarrow> bool) \<Rightarrow> CacheLibCache \<Rightarrow> error + (Tensor1 \<times> Tensor2 \<times> Tensor1)" where
  "get_all_items dispatch st =
     (let total_num_items =
            foldl (\<lambda>total pool_id. total + of_nat (numItems (m_cache st) pool_id)) 0 (m_pool_ids st)
      in get_all_items_scan dispatch (m_cache_config st) total_num_items (items (m_cache st)))"

text \<open>
  \<^verbatim>\<open>init_tensor_for_l2_eviction(indices, weights, count)\<close>: \<open>count\<close> is the value of
  \<^verbatim>\<open>count.item<long>()\<close>. A negative size and \<^verbatim>\<open>size(1)\<close> of a tensor with fewer than two
  dimensions are rejected by the tensor library.
\<close>

definition init_tensor_for_l2_eviction ::
  "CacheLibCache \<Rightarrow> TensorArg \<Rightarrow> TensorArg \<Rightarrow> int \<Rightarrow> error + CacheLibCache" where
  "init_tensor_for_l2_eviction st indices weights count =
     (let num_lookups = count
      in if num_lookups < 0 then Inl invalid_argument
         else
           (case a_sizes weights of
              d0 # d1 # ds \<Rightarrow>
                Inr (st\<lparr>m_evicted_indices_ptr :=
                          Some (at_ones_times_minus_one (nat num_lookups) (a_dtype indices)),
                        m_evicted_weights_ptr :=
                          Some (at_empty2 (nat num_lookups) d1 (a_dtype weights))\<rparr>)
            | _ \<Rightarrow> Inl invalid_argument))"

definition reset_eviction_states :: "CacheLibCache \<Rightarrow> CacheLibCache" where
  "reset_eviction_states st = st\<lparr>eviction_row_id := 0\<rparr>"

definition get_evicted_indices_and_weights ::
  "CacheLibCache \<Rightarrow> error + (Tensor1 \<times> Tensor2) option" where
  "get_evicted_indices_and_weights st =
     (case m_evicted_indices_ptr st of
        Some indices \<Rightarrow>
          (case m_evicted_weights_ptr st of
             None \<Rightarrow> Inl null_dereference
           | Some weights \<Rightarrow> Inr (Some (indices, weights)))
      | None \<Rightarrow> Inr None)"

subsection \<open>One capture cycle\<close>

text \<open>
  The protocol of the caller for one cycle: attach the buffers, zero the cursor, make the
  batch of \<^verbatim>\<open>put\<close> calls, read the buffers back.
\<close>

definition capture_cycle ::
  "(64 word \<Rightarrow> nat \<Rightarrow> nat) \<Rightarrow> (ScalarType \<Rightarrow> bool) \<Rightarrow> CacheLibCache \<Rightarrow> TensorArg \<Rightarrow> TensorArg
     \<Rightarrow> int \<Rightarrow> (64 word \<times> byte list \<times> alloc_reply) list
     \<Rightarrow> error + (Tensor1 \<times> Tensor2) option" where
  "capture_cycle hash_shard dispatch st indices weights count ops =
     (case init_tensor_for_l2_eviction st indices weights count of
        Inl e \<Rightarrow> Inl e
      | Inr st1 \<Rightarrow>
          (case put_batch hash_shard dispatch (reset_eviction_states st1) ops of
             Inl e \<Rightarrow> Inl e
           | Inr st2 \<Rightarrow> get_evicted_indices_and_weights st2))"

text \<open>
  The vocabulary of the statements about a cycle: the key the callback reads from an item,
  the items the allocator evicts during a batch, in order, the number of key slots that do
  not carry the sentinel, and the shape of the engine in the middle of a cycle, when the
  slots \<open>kw\<close> and \<open>rw\<close> have been written, \<open>n\<close> slots are still free and the cursor
  stands at the first free slot.
\<close>

definition captured_key :: "Item \<Rightarrow> int option" where
  "captured_key it = map_option sint (read_int64 (getKey it))"

definition batch_evictions :: "(64 word \<times> byte list \<times> alloc_reply) list \<Rightarrow> Item list" where
  "batch_evictions ops = concat (map (\<lambda>(key, data, reply). evicted reply) ops)"

definition non_sentinel_slots :: "Tensor1 \<Rightarrow> nat" where
  "non_sentinel_slots t = length (filter (\<lambda>v. v \<noteq> Some (- 1)) (t1_data t))"

definition capturing ::
  "CacheLibCache \<Rightarrow> ScalarType \<Rightarrow> nat \<Rightarrow> int option list \<Rightarrow> byte list option list \<Rightarrow> nat \<Rightarrow> bool" where
  "capturing st dt D kw rw n \<longleftrightarrow>
     m_evicted_indices_ptr st = Some \<lparr>t1_dtype = kLong, t1_data = kw @ replicate n (Some (- 1))\<rparr>
     \<and> m_evicted_weights_ptr st = Some \<lparr>t2_dtype = dt, t2_dim = D, t2_rows = rw @ replicate n None\<rparr>
     \<and> eviction_row_id st = length kw \<and> length rw = length kw"

subsection \<open>The shape of a reachable engine and of a usable configuration\<close>

text \<open>
  The constructor and \<^verbatim>\<open>put\<close> keep the pool identifiers distinct, every item in one of
  the engine's pools, and every key eight bytes long. A configuration is usable for
  \<^verbatim>\<open>get_all_items\<close> with the scalar type \<open>dt\<close> when the row dimension is not zero, the
  element width maps to \<open>dt\<close> and the dispatch macro covers \<open>dt\<close>; a row of the
  configuration then has \<open>row_bytes\<close> bytes.
\<close>

definition engine_inv :: "CacheLibCache \<Rightarrow> bool" where
  "engine_inv st \<longleftrightarrow>
     distinct (m_pool_ids st)
     \<and> (\<forall>it \<in> set (items (m_cache st)).
           poolId it \<in> set (m_pool_ids st) \<and> length (getKey it) = 8)"

definition supported_rows :: "(ScalarType \<Rightarrow> bool) \<Rightarrow> CacheConfig \<Rightarrow> ScalarType \<Rightarrow> bool" where
  "supported_rows dispatch cfg dt \<longleftrightarrow>
     0 < max_D cfg \<and> bytes_to_dtype (of_nat (item_size_bytes cfg div max_D cfg)) = Inr dt
     \<and> dispatch dt"

definition row_bytes :: "CacheConfig \<Rightarrow> ScalarType \<Rightarrow> nat" where
  "row_bytes cfg dt = max_D cfg * elementSize dt"

subsection \<open>Instances of the parameters\<close>

text \<open>
  The examples below run the model with these two: a router that reduces the key modulo the
  number of shards, and the dispatch set that the name of the macro lists (float, half and
  byte). The general statements hold for every router and every dispatch set. Several
  examples start from one small engine, and one needs an engine with very many items: the
  one-shard engine after \<open>n\<close> keys \<open>0, 1, ...\<close> have been stored with a row of four zero
  bytes each.
\<close>

definition modulo_shard :: "64 word \<Rightarrow> nat \<Rightarrow> nat" where
  "modulo_shard k n = unat k mod n"

definition float_half_and_byte :: "ScalarType \<Rightarrow> bool" where
  "float_half_and_byte dt = (dt = kFloat \<or> dt = kHalf \<or> dt = kByte)"

definition example_engine :: CacheLibCache where
  "example_engine =
     CacheLibCache_new
       \<lparr>cache_size_bytes = 1024, item_size_bytes = 4, num_shards = 2, max_D = 1\<rparr> 1000"





section \<open>Properties\<close>

subsection \<open>The key codec\<close>

lemma length_key_bytes: "length (key_bytes k) = 8"
  by (simp add: key_bytes_def)

lemma le_value_horner: "le_value bs = word_of_int (horner_sum uint (2 ^ 8) bs)"
  by (induction bs) (simp_all add: push_bit_eq_mult mult.commute)

lemma bit_le_value:
  "bit (le_value bs) n \<longleftrightarrow> n < 64 \<and> n div 8 < length bs \<and> bit (bs ! (n div 8)) (n mod 8)"
  using bit_horner_sum_uint_exp_iff [where ?'a = 8, of bs n]
  by (simp add: le_value_horner bit_word_of_int_iff)

lemma le_value_key_bytes: "le_value (key_bytes k) = k"
proof (rule bit_word_eqI)
  fix n assume n: "n < LENGTH(64)"
  then have d: "n div 8 < 8" by simp
  with n show "bit (le_value (key_bytes k)) n \<longleftrightarrow> bit k n"
    by (simp add: bit_le_value key_bytes_def bit_ucast_iff bit_drop_bit_eq
        del: div_less_iff_less_mult)
qed

lemma read_int64_key_bytes: "read_int64 (key_bytes k) = Some k"
  by (simp add: read_int64_def length_key_bytes le_value_key_bytes)


subsection \<open>Construction\<close>

lemma upt_shift_Cons: "[m..<m + Suc k] = m # [Suc m..<Suc m + k]"
  by (simp add: upt_conv_Cons del: upt_Suc)

lemma add_shard_pools_eq:
  "add_shard_pools n js (c, ids) =
     (c\<lparr>pools := pools c @ map (\<lambda>i. (''shard_'' @ show_nat i, ramCacheSize c div n)) js\<rparr>,
      ids @ [length (pools c)..<length (pools c) + length js])"
proof (induction js arbitrary: c ids)
  case Nil
  show ?case by simp
next
  case (Cons j js)
  let ?c = "c\<lparr>pools := pools c @ [(''shard_'' @ show_nat j, ramCacheSize c div n)]\<rparr>"
  have "add_shard_pools n (j # js) (c, ids) = add_shard_pools n js (?c, ids @ [length (pools c)])"
    by (simp add: addPool_def)
  also have "\<dots> =
      (?c\<lparr>pools := pools ?c @ map (\<lambda>i. (''shard_'' @ show_nat i, ramCacheSize ?c div n)) js\<rparr>,
       (ids @ [length (pools c)]) @ [length (pools ?c)..<length (pools ?c) + length js])"
    by (rule Cons.IH)
  also have "\<dots> =
      (c\<lparr>pools := pools c @ map (\<lambda>i. (''shard_'' @ show_nat i, ramCacheSize c div n)) (j # js)\<rparr>,
       ids @ [length (pools c)..<length (pools c) + length (j # js)])"
    using upt_shift_Cons [of "length (pools c)" "length js"] by simp
  finally show ?case .
qed

lemma CacheLibCache_new_eq:
  "CacheLibCache_new cfg ram =
     \<lparr>m_cache_config = cfg,
      m_cache = \<lparr>cacheSize = cache_size_bytes cfg, cacheName = ''TBEL2Cache'', ramCacheSize = ram,
                 pools = map (\<lambda>i. (''shard_'' @ show_nat i, ram div num_shards cfg))
                           [0..<num_shards cfg],
                 items = []\<rparr>,
      m_pool_ids = [0..<num_shards cfg],
      m_evicted_indices_ptr = None, m_evicted_weights_ptr = None,
      eviction_row_id = 0, xlog = []\<rparr>"
  by (simp add: CacheLibCache_new_def add_shard_pools_eq initializeCacheLib_def)

text \<open>
  C4, as the code has it. The constructor makes \<open>num_shards\<close> pools, named \<^verbatim>\<open>shard_0\<close>,
  \<^verbatim>\<open>shard_1\<close>, ..., with the identifiers \<open>0, 1, ...\<close>, and each has the capacity
  \<open>ramCacheSize div num_shards\<close>: the size that is divided is the one the allocator reports
  through \<^verbatim>\<open>getCacheMemoryStats()\<close>, not the configured \<open>cache_size_bytes\<close>. The division
  rounds down, so the capacities add up to \<open>num_shards * (ramCacheSize div num_shards)\<close>, at
  most \<open>ramCacheSize\<close>, and the remainder belongs to no pool.
\<close>

theorem pool_capacity_is_reported_size_per_shard:
  "map snd (pools (m_cache (CacheLibCache_new cfg ram)))
     = replicate (num_shards cfg) (ram div num_shards cfg)
   \<and> map fst (pools (m_cache (CacheLibCache_new cfg ram)))
     = map (\<lambda>i. ''shard_'' @ show_nat i) [0..<num_shards cfg]
   \<and> m_pool_ids (CacheLibCache_new cfg ram) = [0..<num_shards cfg]
   \<and> ramCacheSize (m_cache (CacheLibCache_new cfg ram)) = ram
   \<and> sum_list (map snd (pools (m_cache (CacheLibCache_new cfg ram))))
     = num_shards cfg * (ram div num_shards cfg)
   \<and> sum_list (map snd (pools (m_cache (CacheLibCache_new cfg ram)))) \<le> ram"
  by (simp add: CacheLibCache_new_eq comp_def map_replicate_const sum_list_replicate)

text \<open>
  C4, as the specification words it, fails where the allocator keeps part of the configured
  size for itself: configured with 1 GiB and two shards, and reporting one 4 MiB slab less
  as usable, it gets two pools of 534773760 bytes, not of 536870912.
\<close>

theorem pool_capacity_counterexample:
  "map snd (pools (m_cache (CacheLibCache_new
      \<lparr>cache_size_bytes = 1073741824, item_size_bytes = 4, num_shards = 2, max_D = 1\<rparr>
      1069547520)))
   \<noteq> [1073741824 div 2, 1073741824 div 2]"
  by (simp add: CacheLibCache_new_eq upt_conv_Cons)

subsection \<open>Arming the capture buffer\<close>

text \<open>
  C9. Arming is the pair of calls \<^verbatim>\<open>init_tensor_for_l2_eviction\<close> and
  \<^verbatim>\<open>reset_eviction_states\<close>, in either order: the first attaches the buffers and leaves the
  cursor alone, the second zeroes the cursor and leaves the buffers alone. For a count that
  is not negative, indices of type long and weights with at least two dimensions, the engine
  then holds a key buffer of \<open>count\<close> slots that all carry \<open>-1\<close>, a row buffer of \<open>count\<close>
  rows of \<^verbatim>\<open>weights.size(1)\<close> elements, none of them written yet, and the cursor 0.
\<close>

theorem arming_establishes_armed_state:
  assumes "0 \<le> count"
    and "a_sizes weights = d0 # row_dim # ds"
    and "a_dtype indices = kLong"
  shows "\<exists>st'. init_tensor_for_l2_eviction st indices weights count = Inr st'
           \<and> eviction_row_id st' = eviction_row_id st
           \<and> eviction_row_id (reset_eviction_states st') = 0
           \<and> init_tensor_for_l2_eviction (reset_eviction_states st) indices weights count
               = Inr (reset_eviction_states st')
           \<and> get_evicted_indices_and_weights (reset_eviction_states st')
               = Inr (Some (\<lparr>t1_dtype = kLong, t1_data = replicate (nat count) (Some (- 1))\<rparr>,
                            \<lparr>t2_dtype = a_dtype weights, t2_dim = row_dim,
                             t2_rows = replicate (nat count) None\<rparr>))"
  using assms
  by (simp add: init_tensor_for_l2_eviction_def reset_eviction_states_def
      get_evicted_indices_and_weights_def at_ones_times_minus_one_def at_empty2_def
      minus_one_def)

theorem arming_establishes_armed_state_witness:
  "\<exists>st'. init_tensor_for_l2_eviction
            (CacheLibCache_new
               \<lparr>cache_size_bytes = 1024, item_size_bytes = 4, num_shards = 2, max_D = 1\<rparr> 1000)
            \<lparr>a_dtype = kLong, a_sizes = [3]\<rparr> \<lparr>a_dtype = kFloat, a_sizes = [3, 1]\<rparr> 3 = Inr st'
         \<and> eviction_row_id (reset_eviction_states st') = 0
         \<and> get_evicted_indices_and_weights (reset_eviction_states st')
               = Inr (Some (\<lparr>t1_dtype = kLong, t1_data = [Some (- 1), Some (- 1), Some (- 1)]\<rparr>,
                            \<lparr>t2_dtype = kFloat, t2_dim = 1, t2_rows = [None, None, None]\<rparr>))"
  using arming_establishes_armed_state [of 3 "\<lparr>a_dtype = kFloat, a_sizes = [3, 1]\<rparr>" 3 1 "[]"
      "\<lparr>a_dtype = kLong, a_sizes = [3]\<rparr>"
      "CacheLibCache_new
         \<lparr>cache_size_bytes = 1024, item_size_bytes = 4, num_shards = 2, max_D = 1\<rparr> 1000"]
  by (auto simp: numeral_3_eq_3)

subsection \<open>A removal while no buffer is attached\<close>

lemma eviction_cb_unarmed:
  "m_evicted_weights_ptr st = None \<Longrightarrow> eviction_cb dispatch st d = Inl null_dereference"
  by (simp add: eviction_cb_def)

text \<open>
  C2 on the code. An engine fresh from the constructor has no buffer attached:
  \<^verbatim>\<open>get_evicted_indices_and_weights\<close> tests the pointer and answers \<^verbatim>\<open>folly::none\<close>. The
  callback does not test it. The first \<^verbatim>\<open>put\<close> below stores key 1; for the second the
  allocator evicts that item, the callback dereferences the null
  \<^verbatim>\<open>evicted_weights_ptr_\<close>, and the \<^verbatim>\<open>put\<close> does not complete.
\<close>

theorem unarmed_eviction_crashes:
  "\<exists>st1. put modulo_shard float_half_and_byte
      (CacheLibCache_new
         \<lparr>cache_size_bytes = 1024, item_size_bytes = 4, num_shards = 2, max_D = 1\<rparr> 1000)
      1 [1, 2, 3, 4] \<lparr>evicted = [], granted = True\<rparr> = Inr (True, st1)
    \<and> get st1 1 = Some [1, 2, 3, 4]
    \<and> get_evicted_indices_and_weights st1 = Inr None
    \<and> put modulo_shard float_half_and_byte st1 3 [5, 6, 7, 8]
        \<lparr>evicted = [\<lparr>poolId = 1, getKey = key_bytes 1, getMemory = [1, 2, 3, 4]\<rparr>],
         granted = True\<rparr>
       = Inl null_dereference"
  by (simp add: CacheLibCache_new_eq put_def get_pool_id_def get_shard_id_def modulo_shard_def
      allocate_def insertOrReplace_def cache_find_def memcpy_def get_def
      get_evicted_indices_and_weights_def eviction_cb_def upt_conv_Cons)

subsection \<open>What a removal notification leaves alone\<close>

lemma eviction_cb_frame:
  assumes "eviction_cb dispatch st d = Inr st'"
  shows "m_cache st' = m_cache st \<and> m_pool_ids st' = m_pool_ids st \<and> xlog st' = xlog st
         \<and> m_cache_config st' = m_cache_config st"
  using assms
  by (auto simp: eviction_cb_def Let_def split: option.splits if_splits)

lemma notify_frame:
  assumes "notify dispatch st ds = Inr st'"
  shows "m_cache st' = m_cache st \<and> m_pool_ids st' = m_pool_ids st \<and> xlog st' = xlog st
         \<and> m_cache_config st' = m_cache_config st"
  using assms
proof (induction ds arbitrary: st)
  case Nil
  then show ?case by simp
next
  case (Cons d ds)
  then obtain st1 where 1: "eviction_cb dispatch st d = Inr st1"
    and 2: "notify dispatch st1 ds = Inr st'"
    by (auto split: sum.splits)
  from eviction_cb_frame [OF 1] Cons.IH [OF 2] show ?case by simp
qed

subsection \<open>put and get\<close>

lemma allocate_Inr:
  assumes "allocate dispatch st pid key sz reply = Inr (st1, h)"
  shows "items (m_cache st1) = filter (\<lambda>it. it \<notin> set (evicted reply)) (items (m_cache st))
         \<and> m_pool_ids st1 = m_pool_ids st \<and> xlog st1 = xlog st
         \<and> m_cache_config st1 = m_cache_config st
         \<and> h = (if granted reply
                 then Some \<lparr>poolId = pid, getKey = key, getMemory = replicate sz 0\<rparr> else None)"
  using assms
  by (auto simp: allocate_def Let_def split: sum.splits dest!: notify_frame)

lemma insertOrReplace_Inr:
  assumes "insertOrReplace dispatch st item = Inr st'"
  shows "items (m_cache st') = item # filter (\<lambda>it. getKey it \<noteq> getKey item) (items (m_cache st))
         \<and> m_pool_ids st' = m_pool_ids st \<and> xlog st' = xlog st
         \<and> m_cache_config st' = m_cache_config st"
  using assms
  by (auto simp: insertOrReplace_def Let_def dest!: notify_frame)

lemma memcpy_all: "memcpy (replicate (length src) z) src (length src) = src"
  by (simp add: memcpy_def)

lemma put_True:
  assumes "put hash_shard dispatch st k r reply = Inr (True, st')"
  shows "\<exists>pid. get_pool_id hash_shard st k = Inr pid \<and> granted reply
           \<and> items (m_cache st') =
               \<lparr>poolId = pid, getKey = key_bytes k, getMemory = r\<rparr>
               # filter (\<lambda>it. getKey it \<noteq> key_bytes k)
                   (filter (\<lambda>it. it \<notin> set (evicted reply)) (items (m_cache st)))
           \<and> m_pool_ids st' = m_pool_ids st \<and> xlog st' = xlog st"
proof -
  from assms obtain pid where pid: "get_pool_id hash_shard st k = Inr pid"
    by (auto simp: put_def Let_def split: sum.splits)
  from assms pid obtain st1 h where al: "allocate dispatch st pid (key_bytes k) (length r) reply = Inr (st1, h)"
    by (auto simp: put_def Let_def split: sum.splits)
  note a = allocate_Inr [OF al]
  from assms pid al have g: "granted reply"
    using a by (auto simp: put_def Let_def split: sum.splits option.splits if_splits)
  with a have h: "h = Some \<lparr>poolId = pid, getKey = key_bytes k, getMemory = replicate (length r) 0\<rparr>"
    by simp
  from assms pid al h
  have ins: "insertOrReplace dispatch st1 \<lparr>poolId = pid, getKey = key_bytes k, getMemory = r\<rparr> = Inr st'"
    by (auto simp: put_def Let_def memcpy_all split: sum.splits)
  from insertOrReplace_Inr [OF ins] a pid g show ?thesis by simp
qed

text \<open>
  C3. When \<^verbatim>\<open>put(k, r)\<close> returns true, \<^verbatim>\<open>get(k)\<close> on the state it leaves returns the bytes
  of \<open>r\<close>, for every key, every row, every router, whatever the allocator evicted on the
  way and whatever was stored under \<open>k\<close> before.
\<close>

theorem put_get_roundtrip:
  assumes "put hash_shard dispatch st k r reply = Inr (True, st')"
  shows "get st' k = Some r"
  using put_True [OF assms] by (auto simp: get_def cache_find_def)

theorem put_get_roundtrip_witness:
  "\<exists>st'. put modulo_shard float_half_and_byte
      (CacheLibCache_new
         \<lparr>cache_size_bytes = 1024, item_size_bytes = 4, num_shards = 2, max_D = 1\<rparr> 1000)
      7 [10, 20, 30, 40] \<lparr>evicted = [], granted = True\<rparr> = Inr (True, st')
    \<and> get st' 7 = Some [10, 20, 30, 40]"
proof -
  let ?st = "CacheLibCache_new
         \<lparr>cache_size_bytes = 1024, item_size_bytes = 4, num_shards = 2, max_D = 1\<rparr> 1000"
  have "\<exists>st'. put modulo_shard float_half_and_byte ?st 7 [10, 20, 30, 40]
          \<lparr>evicted = [], granted = True\<rparr> = Inr (True, st')"
    by (simp add: CacheLibCache_new_eq put_def get_pool_id_def get_shard_id_def modulo_shard_def
      allocate_def insertOrReplace_def cache_find_def upt_conv_Cons)
  then obtain st' where p: "put modulo_shard float_half_and_byte ?st 7 [10, 20, 30, 40]
          \<lparr>evicted = [], granted = True\<rparr> = Inr (True, st')" ..
  from put_get_roundtrip [OF p] p show ?thesis by blast
qed

subsection \<open>Eviction capture\<close>

lemma update_first_free:
  "0 < n \<Longrightarrow> (xs @ replicate n s)[length xs := v] = (xs @ [v]) @ replicate (n - 1) s"
  by (cases n) (simp_all add: list_update_append)

lemma capturing_frame [simp]:
  "capturing (st\<lparr>m_cache := c\<rparr>) dt D kw rw n = capturing st dt D kw rw n"
  "capturing (st\<lparr>xlog := l\<rparr>) dt D kw rw n = capturing st dt D kw rw n"
  by (simp_all add: capturing_def)

lemma eviction_cb_capturing_normal:
  assumes "capturing st dt D kw rw n" and "dispatch dt" and "rm_context d = kNormal"
  shows "eviction_cb dispatch st d = Inr st"
  using assms by (simp add: eviction_cb_def capturing_def)

lemma eviction_cb_capturing_evict:
  assumes c: "capturing st dt D kw rw n" and "dispatch dt" and "rm_context d = kEviction"
    and "0 < n" and "length (getKey (rm_item d)) = 8"
    and "D * elementSize dt \<le> length (getMemory (rm_item d))"
  shows "\<exists>st'. eviction_cb dispatch st d = Inr st'
           \<and> capturing st' dt D (kw @ [captured_key (rm_item d)])
                (rw @ [Some (take (D * elementSize dt) (getMemory (rm_item d)))]) (n - 1)"
proof -
  from assms(5) obtain key where key: "read_int64 (getKey (rm_item d)) = Some key"
    by (simp add: read_int64_def)
  from c have ix: "m_evicted_indices_ptr st = Some \<lparr>t1_dtype = kLong, t1_data = kw @ replicate n (Some (- 1))\<rparr>"
    and ws: "m_evicted_weights_ptr st = Some \<lparr>t2_dtype = dt, t2_dim = D, t2_rows = rw @ replicate n None\<rparr>"
    and cur: "eviction_row_id st = length kw" and len: "length rw = length kw"
    by (simp_all add: capturing_def)
  have u1: "(kw @ replicate n (Some (- 1)))[length kw := Some (sint key)]
              = (kw @ [Some (sint key)]) @ replicate (n - 1) (Some (- 1))"
    using \<open>0 < n\<close> by (rule update_first_free)
  have u2: "(rw @ replicate n None)[length kw := Some (take (D * elementSize dt) (getMemory (rm_item d)))]
              = (rw @ [Some (take (D * elementSize dt) (getMemory (rm_item d)))]) @ replicate (n - 1) None"
    using update_first_free [OF \<open>0 < n\<close>, of rw None] len by simp
  show ?thesis
    using assms(2,3,4,6) key len
    by (simp add: eviction_cb_def ix ws cur Let_def u1 u2 capturing_def captured_key_def)
qed

lemma notify_capturing:
  assumes "capturing st dt D kw rw n" and "dispatch dt"
    and "length (filter (\<lambda>d. rm_context d = kEviction) ds) \<le> n"
    and "\<And>d. d \<in> set ds \<Longrightarrow> rm_context d = kEviction \<Longrightarrow>
           length (getKey (rm_item d)) = 8 \<and> D * elementSize dt \<le> length (getMemory (rm_item d))"
  shows "\<exists>st'. notify dispatch st ds = Inr st'
           \<and> capturing st' dt D
                (kw @ map (\<lambda>d. captured_key (rm_item d)) (filter (\<lambda>d. rm_context d = kEviction) ds))
                (rw @ map (\<lambda>d. Some (take (D * elementSize dt) (getMemory (rm_item d))))
                        (filter (\<lambda>d. rm_context d = kEviction) ds))
                (n - length (filter (\<lambda>d. rm_context d = kEviction) ds))"
  using assms
proof (induction ds arbitrary: st kw rw n)
  case Nil
  then show ?case by simp
next
  case (Cons d ds)
  show ?case
  proof (cases "rm_context d")
    case kNormal
    have 1: "eviction_cb dispatch st d = Inr st"
      using Cons.prems(1,2) kNormal
      by (rule eviction_cb_capturing_normal [where dispatch = dispatch and dt = dt])
    from Cons.prems kNormal have "length (filter (\<lambda>d. rm_context d = kEviction) ds) \<le> n"
      by simp
    from Cons.IH [OF Cons.prems(1,2) this] Cons.prems(4) 1 kNormal show ?thesis
      by simp
  next
    case kEviction
    with Cons.prems have n: "0 < n" and m: "length (filter (\<lambda>d. rm_context d = kEviction) ds) \<le> n - 1"
      by simp_all
    from Cons.prems(4) [of d] kEviction
    have wf: "length (getKey (rm_item d)) = 8" "D * elementSize dt \<le> length (getMemory (rm_item d))"
      by simp_all
    from eviction_cb_capturing_evict [where dispatch = dispatch and dt = dt, OF Cons.prems(1,2) kEviction n wf]
    obtain st1 where 1: "eviction_cb dispatch st d = Inr st1"
      and 2: "capturing st1 dt D (kw @ [captured_key (rm_item d)])
                (rw @ [Some (take (D * elementSize dt) (getMemory (rm_item d)))]) (n - 1)"
      by blast
    from Cons.IH [OF 2 Cons.prems(2) m] Cons.prems(4) 1 kEviction show ?thesis
      by simp
  qed
qed

lemma allocate_capturing:
  assumes "capturing st dt D kw rw n" and "dispatch dt"
    and "length (evicted reply) \<le> n"
    and "\<And>it. it \<in> set (evicted reply) \<Longrightarrow>
           length (getKey it) = 8 \<and> D * elementSize dt \<le> length (getMemory it)"
  shows "\<exists>st1. allocate dispatch st pid key sz reply =
                  Inr (st1, if granted reply
                            then Some \<lparr>poolId = pid, getKey = key, getMemory = replicate sz 0\<rparr>
                            else None)
           \<and> capturing st1 dt D (kw @ map captured_key (evicted reply))
                (rw @ map (\<lambda>it. Some (take (D * elementSize dt) (getMemory it))) (evicted reply))
                (n - length (evicted reply))
           \<and> m_pool_ids st1 = m_pool_ids st"
proof -
  let ?ds = "map (\<lambda>it. \<lparr>rm_context = kEviction, rm_item = it\<rparr>) (evicted reply)"
  let ?st1 = "st\<lparr>m_cache := (m_cache st)\<lparr>items :=
                filter (\<lambda>it. it \<notin> set (evicted reply)) (items (m_cache st))\<rparr>\<rparr>"
  have f: "filter (\<lambda>d. rm_context d = kEviction) ?ds = ?ds"
    by (induction "evicted reply") auto
  have c: "capturing ?st1 dt D kw rw n" using assms(1) by simp
  have l: "length (filter (\<lambda>d. rm_context d = kEviction) ?ds) \<le> n"
    using assms(3) by (simp add: f)
  have w: "\<And>d. d \<in> set ?ds \<Longrightarrow> rm_context d = kEviction \<Longrightarrow>
           length (getKey (rm_item d)) = 8 \<and> D * elementSize dt \<le> length (getMemory (rm_item d))"
    using assms(4) by auto
  from notify_capturing [where dispatch = dispatch and dt = dt, OF c assms(2) l w]
  obtain st' where 1: "notify dispatch ?st1 ?ds = Inr st'"
    and 2: "capturing st' dt D (kw @ map captured_key (evicted reply))
                (rw @ map (\<lambda>it. Some (take (D * elementSize dt) (getMemory it))) (evicted reply))
                (n - length (evicted reply))"
    by (auto simp: f comp_def)
  from notify_frame [OF 1] have "m_pool_ids st' = m_pool_ids st" by simp
  with 1 2 show ?thesis by (simp add: allocate_def Let_def)
qed

lemma insertOrReplace_capturing:
  assumes "capturing st dt D kw rw n" and "dispatch dt"
  shows "\<exists>st'. insertOrReplace dispatch st item = Inr st' \<and> capturing st' dt D kw rw n
           \<and> m_pool_ids st' = m_pool_ids st"
proof -
  let ?st1 = "st\<lparr>m_cache := (m_cache st)\<lparr>items :=
                item # filter (\<lambda>it. getKey it \<noteq> getKey item) (items (m_cache st))\<rparr>\<rparr>"
  have c: "capturing ?st1 dt D kw rw n" using assms(1) by simp
  show ?thesis
  proof (cases "cache_find (m_cache st) (getKey item)")
    case None
    with c show ?thesis by (simp add: insertOrReplace_def Let_def)
  next
    case (Some old)
    have "eviction_cb dispatch ?st1 \<lparr>rm_context = kNormal, rm_item = old\<rparr> = Inr ?st1"
      using c assms(2)
      by (rule eviction_cb_capturing_normal [where dispatch = dispatch and dt = dt]) simp
    with Some c show ?thesis by (simp add: insertOrReplace_def Let_def)
  qed
qed

lemma put_capturing:
  assumes c: "capturing st dt D kw rw n" and d: "dispatch dt"
    and "length (evicted reply) \<le> n"
    and "\<And>it. it \<in> set (evicted reply) \<Longrightarrow>
           length (getKey it) = 8 \<and> D * elementSize dt \<le> length (getMemory it)"
    and h: "hash_shard k (length (m_pool_ids st)) < length (m_pool_ids st)"
  shows "\<exists>st'. put hash_shard dispatch st k r reply = Inr (granted reply, st')
           \<and> capturing st' dt D (kw @ map captured_key (evicted reply))
                (rw @ map (\<lambda>it. Some (take (D * elementSize dt) (getMemory it))) (evicted reply))
                (n - length (evicted reply))
           \<and> m_pool_ids st' = m_pool_ids st"
proof -
  let ?pid = "m_pool_ids st ! hash_shard k (length (m_pool_ids st))"
  from h have pid: "get_pool_id hash_shard st k = Inr ?pid"
    by (simp add: get_pool_id_def get_shard_id_def)
  from allocate_capturing [where dispatch = dispatch and dt = dt and pid = ?pid and key = "key_bytes k" and sz = "length r", OF c d assms(3,4)]
  obtain st1 where al: "allocate dispatch st ?pid (key_bytes k) (length r) reply =
                  Inr (st1, if granted reply
                            then Some \<lparr>poolId = ?pid, getKey = key_bytes k, getMemory = replicate (length r) 0\<rparr>
                            else None)"
    and c1: "capturing st1 dt D (kw @ map captured_key (evicted reply))
                (rw @ map (\<lambda>it. Some (take (D * elementSize dt) (getMemory it))) (evicted reply))
                (n - length (evicted reply))"
    and p1: "m_pool_ids st1 = m_pool_ids st"
    by blast
  show ?thesis
  proof (cases "granted reply")
    case False
    with pid al c1 p1 show ?thesis by (simp add: put_def)
  next
    case True
    from insertOrReplace_capturing [where dispatch = dispatch and dt = dt, OF c1 d]
    obtain st2 where "insertOrReplace dispatch st1
        (\<lparr>poolId = ?pid, getKey = key_bytes k, getMemory = replicate (length r) 0\<rparr>
           \<lparr>getMemory := memcpy (getMemory \<lparr>poolId = ?pid, getKey = key_bytes k, getMemory = replicate (length r) 0\<rparr>) r (length r)\<rparr>) = Inr st2"
      and "capturing st2 dt D (kw @ map captured_key (evicted reply))
                (rw @ map (\<lambda>it. Some (take (D * elementSize dt) (getMemory it))) (evicted reply))
                (n - length (evicted reply))"
      and "m_pool_ids st2 = m_pool_ids st1"
      by blast
    with True pid al p1 show ?thesis by (simp add: put_def)
  qed
qed

lemma put_batch_capturing:
  assumes "capturing st dt D kw rw n" and "dispatch dt"
    and "length (batch_evictions ops) \<le> n"
    and "\<forall>it \<in> set (batch_evictions ops).
           length (getKey it) = 8 \<and> D * elementSize dt \<le> length (getMemory it)"
    and "\<forall>op \<in> set ops. hash_shard (fst op) (length (m_pool_ids st)) < length (m_pool_ids st)"
  shows "\<exists>st'. put_batch hash_shard dispatch st ops = Inr st'
           \<and> capturing st' dt D (kw @ map captured_key (batch_evictions ops))
                (rw @ map (\<lambda>it. Some (take (D * elementSize dt) (getMemory it))) (batch_evictions ops))
                (n - length (batch_evictions ops))"
  using assms
proof (induction ops arbitrary: st kw rw n)
  case Nil
  then show ?case by (simp add: batch_evictions_def)
next
  case (Cons op ops)
  obtain k r reply where op: "op = (k, r, reply)" by (cases op)
  have be: "batch_evictions ((k, r, reply) # ops) = evicted reply @ batch_evictions ops"
    by (simp add: batch_evictions_def)
  note prems = Cons.prems [unfolded op]
  from prems(3) have l1: "length (evicted reply) \<le> n"
    and l2: "length (batch_evictions ops) \<le> n - length (evicted reply)"
    by (simp_all add: be)
  have w1: "\<And>it. it \<in> set (evicted reply) \<Longrightarrow>
           length (getKey it) = 8 \<and> D * elementSize dt \<le> length (getMemory it)"
    using prems(4) by (simp add: be)
  have w2: "\<forall>it \<in> set (batch_evictions ops).
           length (getKey it) = 8 \<and> D * elementSize dt \<le> length (getMemory it)"
    using prems(4) by (simp add: be)
  have h: "hash_shard k (length (m_pool_ids st)) < length (m_pool_ids st)"
    using prems(5) by simp
  from put_capturing [where dispatch = dispatch and dt = dt and r = r and hash_shard = hash_shard
      and k = k, OF prems(1,2) l1 w1 h]
  obtain st1 where p: "put hash_shard dispatch st k r reply = Inr (granted reply, st1)"
    and c1: "capturing st1 dt D (kw @ map captured_key (evicted reply))
                (rw @ map (\<lambda>it. Some (take (D * elementSize dt) (getMemory it))) (evicted reply))
                (n - length (evicted reply))"
    and p1: "m_pool_ids st1 = m_pool_ids st"
    by blast
  have h2: "\<forall>op \<in> set ops.
      hash_shard (fst op) (length (m_pool_ids st1)) < length (m_pool_ids st1)"
    using prems(5) by (simp add: p1)
  from Cons.IH [OF c1 prems(2) l2 w2 h2] p show ?case
    by (simp add: op be add.commute)
qed

lemma non_sentinel_count:
  assumes "\<forall>v \<in> set vs. v \<noteq> Some (- 1)"
  shows "non_sentinel_slots \<lparr>t1_dtype = dt, t1_data = vs @ replicate n (Some (- 1))\<rparr> = length vs"
  using assms by (simp add: non_sentinel_slots_def)

lemma capturing_armed:
  assumes "0 \<le> count" and "a_sizes weights = d0 # D # ds" and "a_dtype indices = kLong"
  shows "\<exists>st1. init_tensor_for_l2_eviction st indices weights count = Inr st1
           \<and> capturing (reset_eviction_states st1) (a_dtype weights) D [] [] (nat count)
           \<and> m_pool_ids (reset_eviction_states st1) = m_pool_ids st"
  using assms
  by (simp add: init_tensor_for_l2_eviction_def reset_eviction_states_def capturing_def
      at_ones_times_minus_one_def at_empty2_def minus_one_def)

lemma capturing_read:
  assumes "capturing st dt D kw rw n"
  shows "get_evicted_indices_and_weights st =
           Inr (Some (\<lparr>t1_dtype = kLong, t1_data = kw @ replicate n (Some (- 1))\<rparr>,
                      \<lparr>t2_dtype = dt, t2_dim = D, t2_rows = rw @ replicate n None\<rparr>))
         \<and> eviction_row_id st = length kw"
  using assms by (simp add: capturing_def get_evicted_indices_and_weights_def)

text \<open>
  C1, as the code has it. Arm the engine with a buffer of \<open>B\<close> slots: indices of type long,
  weights of a scalar type the dispatch macro covers, the cursor reset. Let the batch of
  \<^verbatim>\<open>put\<close> calls route every key to a pool and let the allocator evict \<open>E \<le> B\<close> items in
  all, each with an eight-byte key other than \<open>-1\<close> and a row of exactly \<open>D\<close> elements of the
  buffer's scalar type. Then the batch completes, the cursor is \<open>E\<close>, the first \<open>E\<close> key
  slots hold the keys of the evicted items in the order of their eviction, the matching row
  slots hold their bytes, the other \<open>B - E\<close> slots still carry the sentinel and are
  untouched, and so exactly \<open>E\<close> key slots are not the sentinel. The items that a \<^verbatim>\<open>put\<close>
  replaces are notified with the context \<^verbatim>\<open>kNormal\<close> and leave no trace: the buffers
  are a function of the evicted items alone.
\<close>

theorem eviction_capture_complete:
  assumes "a_dtype indices = kLong"
    and "a_sizes weights = d0 # D # ds"
    and "dispatch (a_dtype weights)"
    and "length (batch_evictions ops) \<le> B"
    and "\<forall>it \<in> set (batch_evictions ops).
           length (getKey it) = 8 \<and> length (getMemory it) = D * elementSize (a_dtype weights)
           \<and> captured_key it \<noteq> Some (- 1)"
    and "\<forall>op \<in> set ops. hash_shard (fst op) (length (m_pool_ids st)) < length (m_pool_ids st)"
  shows "\<exists>st1 st2 ix ws.
           init_tensor_for_l2_eviction st indices weights (int B) = Inr st1
           \<and> put_batch hash_shard dispatch (reset_eviction_states st1) ops = Inr st2
           \<and> eviction_row_id st2 = length (batch_evictions ops)
           \<and> get_evicted_indices_and_weights st2 = Inr (Some (ix, ws))
           \<and> capture_cycle hash_shard dispatch st indices weights (int B) ops = Inr (Some (ix, ws))
           \<and> ix = \<lparr>t1_dtype = kLong,
                    t1_data = map captured_key (batch_evictions ops)
                              @ replicate (B - length (batch_evictions ops)) (Some (- 1))\<rparr>
           \<and> ws = \<lparr>t2_dtype = a_dtype weights, t2_dim = D,
                    t2_rows = map (\<lambda>it. Some (getMemory it)) (batch_evictions ops)
                              @ replicate (B - length (batch_evictions ops)) None\<rparr>
           \<and> non_sentinel_slots ix = length (batch_evictions ops)"
proof -
  let ?dt = "a_dtype weights"
  let ?evs = "batch_evictions ops"
  from capturing_armed [OF _ assms(2,1), of "int B" st]
  obtain st1 where arm: "init_tensor_for_l2_eviction st indices weights (int B) = Inr st1"
    and c0: "capturing (reset_eviction_states st1) ?dt D [] [] B"
    and p0: "m_pool_ids (reset_eviction_states st1) = m_pool_ids st"
    by auto
  have w: "\<forall>it \<in> set ?evs. length (getKey it) = 8 \<and> D * elementSize ?dt \<le> length (getMemory it)"
    using assms(5) by simp
  have h: "\<forall>op \<in> set ops. hash_shard (fst op) (length (m_pool_ids (reset_eviction_states st1)))
             < length (m_pool_ids (reset_eviction_states st1))"
    using assms(6) by (simp add: p0)
  from put_batch_capturing [where dispatch = dispatch and dt = ?dt and hash_shard = hash_shard,
      OF c0 assms(3,4) w h]
  obtain st2 where run: "put_batch hash_shard dispatch (reset_eviction_states st1) ops = Inr st2"
    and c2: "capturing st2 ?dt D ([] @ map captured_key ?evs)
               ([] @ map (\<lambda>it. Some (take (D * elementSize ?dt) (getMemory it))) ?evs)
               (B - length ?evs)"
    by blast
  have rows: "map (\<lambda>it. Some (take (D * elementSize ?dt) (getMemory it))) ?evs
                = map (\<lambda>it. Some (getMemory it)) ?evs"
    using assms(5) by simp
  have ns: "\<forall>v \<in> set (map captured_key ?evs). v \<noteq> Some (- 1)"
    using assms(5) by simp
  note rd = capturing_read [OF c2]
  show ?thesis
    using arm run rd non_sentinel_count [OF ns, of kLong "B - length ?evs"]
    by (simp add: rows capture_cycle_def)
qed

text \<open>
  A cycle with two slots: key 1 is stored, stored again (a replacement), and then evicted
  for key 3. One slot is taken, by key 1 and the row it had last.
\<close>

theorem eviction_capture_complete_witness:
  "capture_cycle modulo_shard float_half_and_byte
      (CacheLibCache_new
         \<lparr>cache_size_bytes = 1024, item_size_bytes = 4, num_shards = 2, max_D = 1\<rparr> 1000)
      \<lparr>a_dtype = kLong, a_sizes = [2]\<rparr> \<lparr>a_dtype = kFloat, a_sizes = [2, 1]\<rparr> 2
      [(1, [1, 2, 3, 4], \<lparr>evicted = [], granted = True\<rparr>),
       (1, [5, 6, 7, 8], \<lparr>evicted = [], granted = True\<rparr>),
       (3, [9, 9, 9, 9],
        \<lparr>evicted = [\<lparr>poolId = 1, getKey = key_bytes 1, getMemory = [5, 6, 7, 8]\<rparr>],
         granted = True\<rparr>)]
   = Inr (Some (\<lparr>t1_dtype = kLong, t1_data = [Some 1, Some (- 1)]\<rparr>,
                \<lparr>t2_dtype = kFloat, t2_dim = 1, t2_rows = [Some [5, 6, 7, 8], None]\<rparr>))"
proof -
  let ?st = "CacheLibCache_new
         \<lparr>cache_size_bytes = 1024, item_size_bytes = 4, num_shards = 2, max_D = 1\<rparr> 1000"
  let ?indices = "\<lparr>a_dtype = kLong, a_sizes = [2]\<rparr>"
  let ?weights = "\<lparr>a_dtype = kFloat, a_sizes = [2, 1]\<rparr>"
  let ?ops = "[(1, [1, 2, 3, 4], \<lparr>evicted = [], granted = True\<rparr>),
       (1, [5, 6, 7, 8], \<lparr>evicted = [], granted = True\<rparr>),
       (3 :: 64 word, [9, 9, 9, 9] :: byte list,
        \<lparr>evicted = [\<lparr>poolId = 1, getKey = key_bytes 1, getMemory = [5, 6, 7, 8]\<rparr>],
         granted = True\<rparr>)]"
  have ev: "batch_evictions ?ops = [\<lparr>poolId = 1, getKey = key_bytes 1, getMemory = [5, 6, 7, 8]\<rparr>]"
    by (simp add: batch_evictions_def)
  have 1: "a_dtype ?indices = kLong" by simp
  have 2: "a_sizes ?weights = 2 # 1 # []" by simp
  have 3: "float_half_and_byte (a_dtype ?weights)" by (simp add: float_half_and_byte_def)
  have 4: "length (batch_evictions ?ops) \<le> 2" by (simp add: batch_evictions_def)
  have 5: "\<forall>it \<in> set (batch_evictions ?ops).
           length (getKey it) = 8 \<and> length (getMemory it) = 1 * elementSize (a_dtype ?weights)
           \<and> captured_key it \<noteq> Some (- 1)"
    by (simp add: batch_evictions_def length_key_bytes captured_key_def read_int64_key_bytes)
  have 6: "\<forall>op \<in> set ?ops. modulo_shard (fst op) (length (m_pool_ids ?st)) < length (m_pool_ids ?st)"
    by (simp add: CacheLibCache_new_eq modulo_shard_def)
  from eviction_capture_complete [where dispatch = float_half_and_byte and weights = ?weights
      and hash_shard = modulo_shard and st = ?st, OF 1 2 3 4 5 6]
  obtain ix ws where cc: "capture_cycle modulo_shard float_half_and_byte ?st ?indices ?weights
                            (int 2) ?ops = Inr (Some (ix, ws))"
    and ix: "ix = \<lparr>t1_dtype = kLong,
                    t1_data = map captured_key (batch_evictions ?ops)
                              @ replicate (2 - length (batch_evictions ?ops)) (Some (- 1))\<rparr>"
    and ws: "ws = \<lparr>t2_dtype = a_dtype ?weights, t2_dim = 1,
                    t2_rows = map (\<lambda>it. Some (getMemory it)) (batch_evictions ?ops)
                              @ replicate (2 - length (batch_evictions ?ops)) None\<rparr>"
    by blast
  from cc show ?thesis
    by (simp add: ix ws batch_evictions_def captured_key_def read_int64_key_bytes)
qed

text \<open>
  C1, as the specification words it, fails in two ways. A key of \<open>-1\<close> is a key like any
  other for \<^verbatim>\<open>put\<close>; when its item is evicted the callback writes \<open>-1\<close> into the slot,
  and after one eviction no slot differs from the sentinel. And a row that is longer than
  the rows of the buffer is cut: an item of eight bytes evicted into a buffer of one
  single-precision element per row leaves its first four bytes in the slot.
\<close>

theorem eviction_capture_counterexample:
  "capture_cycle modulo_shard float_half_and_byte
      (CacheLibCache_new
         \<lparr>cache_size_bytes = 1024, item_size_bytes = 4, num_shards = 2, max_D = 1\<rparr> 1000)
      \<lparr>a_dtype = kLong, a_sizes = [1]\<rparr> \<lparr>a_dtype = kFloat, a_sizes = [1, 1]\<rparr> 1
      [(- 1, [1, 2, 3, 4], \<lparr>evicted = [], granted = True\<rparr>),
       (3, [9, 9, 9, 9],
        \<lparr>evicted = [\<lparr>poolId = 1, getKey = key_bytes (- 1), getMemory = [1, 2, 3, 4]\<rparr>],
         granted = True\<rparr>)]
   = Inr (Some (\<lparr>t1_dtype = kLong, t1_data = [Some (- 1)]\<rparr>,
                \<lparr>t2_dtype = kFloat, t2_dim = 1, t2_rows = [Some [1, 2, 3, 4]]\<rparr>))
   \<and> length (batch_evictions
        [(- 1, [1, 2, 3, 4], \<lparr>evicted = [], granted = True\<rparr>),
         (3, [9, 9, 9, 9],
          \<lparr>evicted = [\<lparr>poolId = 1, getKey = key_bytes (- 1), getMemory = [1, 2, 3, 4]\<rparr>],
           granted = True\<rparr>)]) = 1
   \<and> non_sentinel_slots \<lparr>t1_dtype = kLong, t1_data = [Some (- 1)]\<rparr> = 0
   \<and> capture_cycle modulo_shard float_half_and_byte
      (CacheLibCache_new
         \<lparr>cache_size_bytes = 1024, item_size_bytes = 4, num_shards = 2, max_D = 1\<rparr> 1000)
      \<lparr>a_dtype = kLong, a_sizes = [1]\<rparr> \<lparr>a_dtype = kFloat, a_sizes = [1, 1]\<rparr> 1
      [(1, [1, 2, 3, 4, 5, 6, 7, 8], \<lparr>evicted = [], granted = True\<rparr>),
       (3, [9, 9, 9, 9],
        \<lparr>evicted = [\<lparr>poolId = 1, getKey = key_bytes 1,
                      getMemory = [1, 2, 3, 4, 5, 6, 7, 8]\<rparr>],
         granted = True\<rparr>)]
   = Inr (Some (\<lparr>t1_dtype = kLong, t1_data = [Some 1]\<rparr>,
                \<lparr>t2_dtype = kFloat, t2_dim = 1, t2_rows = [Some [1, 2, 3, 4]]\<rparr>))"
  by (simp add: capture_cycle_def init_tensor_for_l2_eviction_def reset_eviction_states_def
      at_ones_times_minus_one_def at_empty2_def minus_one_def CacheLibCache_new_eq
      put_def get_pool_id_def get_shard_id_def modulo_shard_def allocate_def insertOrReplace_def
      cache_find_def memcpy_def eviction_cb_def read_int64_key_bytes float_half_and_byte_def
      get_evicted_indices_and_weights_def batch_evictions_def non_sentinel_slots_def
      upt_conv_Cons Let_def)

subsection \<open>Narrowing to the 32-bit int\<close>

lemma unat_of_nat32: "unat (of_nat n :: 32 word) = n mod 2 ^ 32"
  by (simp add: unat_of_nat)

lemma of_nat32_eq_iff: "(of_nat n :: 32 word) = w \<longleftrightarrow> n mod 2 ^ 32 = unat w"
proof
  assume "of_nat n = w"
  then show "n mod 2 ^ 32 = unat w" using unat_of_nat32 [of n] by simp
next
  assume "n mod 2 ^ 32 = unat w"
  then have "unat (of_nat n :: 32 word) = unat w" by (simp add: unat_of_nat32)
  then show "of_nat n = w" by (simp add: word_unat_eq_iff)
qed

lemma sint_of_nat32_small: "n < 2 ^ 31 \<Longrightarrow> sint (of_nat n :: 32 word) = int n"
  by (simp add: signed_of_nat signed_take_bit_int_eq_self)




subsection \<open>The element type of the exported rows\<close>

lemma bytes_to_dtype_of_nat:
  "bytes_to_dtype (of_nat w) =
     (if w mod 2 ^ 32 = 1 then Inr kByte else if w mod 2 ^ 32 = 2 then Inr kHalf
      else if w mod 2 ^ 32 = 4 then Inr kFloat else if w mod 2 ^ 32 = 8 then Inr kDouble
      else Inl (runtime_error ''Unsupported dtype''))"
  by (simp add: bytes_to_dtype_def of_nat32_eq_iff)


lemma get_all_items_scan_unsupported:
  assumes "0 < max_D cfg"
    and "bytes_to_dtype (of_nat (item_size_bytes cfg div max_D cfg)) = Inl e"
  shows "get_all_items_scan dispatch cfg tot visited = Inl e"
  using assms by (simp add: get_all_items_scan_def)

lemma get_all_items_scan_dtype:
  assumes "get_all_items_scan dispatch cfg tot visited = Inr (ix, ws, n)"
  shows "bytes_to_dtype (of_nat (item_size_bytes cfg div max_D cfg)) = Inr (t2_dtype ws)"
  using assms
  by (auto simp: get_all_items_scan_def Let_def at_empty2_def
      split: if_splits sum.splits prod.splits)

lemma get_all_items_new:
  assumes "supported_rows dispatch cfg dt"
  shows "get_all_items dispatch (CacheLibCache_new cfg ram) =
           Inr (\<lparr>t1_dtype = kLong, t1_data = []\<rparr>,
                \<lparr>t2_dtype = dt, t2_dim = max_D cfg, t2_rows = []\<rparr>,
                \<lparr>t1_dtype = kLong, t1_data = [Some 0]\<rparr>)"
proof -
  have "foldl (\<lambda>total pool_id. total + of_nat (numItems (m_cache (CacheLibCache_new cfg ram)) pool_id))
          (0 :: 32 word) ids = 0" for ids
    by (induction ids) (simp_all add: CacheLibCache_new_eq numItems_def)
  with assms show ?thesis
    by (simp add: get_all_items_def get_all_items_scan_def supported_rows_def Let_def
        at_empty1_def at_empty2_def CacheLibCache_new_eq)
qed

text \<open>
  C6, as the code has it. With a row dimension that is not zero, \<^verbatim>\<open>get_all_items\<close> hands
  the element width \<open>item_size_bytes div max_D\<close> to \<^verbatim>\<open>bytes_to_dtype\<close>, whose parameter is
  a 32-bit \<^verbatim>\<open>int\<close>: the table is read at the width modulo \<open>2 ^ 32\<close>, which is the width
  itself when that is below \<open>2 ^ 32\<close>. There 1 is the byte type, 2 half precision, 4 single
  precision, 8 double precision. Whenever the call returns tensors, the rows have the scalar
  type of the table, and an engine fresh from the constructor with a width of the table that
  the dispatch covers does return them. For every width that is not 1, 2, 4 or 8 modulo
  \<open>2 ^ 32\<close> the call raises \<^verbatim>\<open>runtime_error("Unsupported dtype")\<close>, whatever the cache
  holds; the constructor does not look at the width, so an engine with such a configuration
  is built and the error comes with the call.
\<close>

theorem get_all_items_infers_dtype:
  assumes "0 < max_D (m_cache_config st)"
  shows "(let w = item_size_bytes (m_cache_config st) div max_D (m_cache_config st);
              v = w mod 2 ^ 32 in
          bytes_to_dtype (of_nat w) =
            (if v = 1 then Inr kByte else if v = 2 then Inr kHalf
             else if v = 4 then Inr kFloat else if v = 8 then Inr kDouble
             else Inl (runtime_error ''Unsupported dtype''))
          \<and> (w < 2 ^ 32 \<longrightarrow> v = w)
          \<and> (\<forall>ix ws n. get_all_items dispatch st = Inr (ix, ws, n)
                \<longrightarrow> bytes_to_dtype (of_nat w) = Inr (t2_dtype ws))
          \<and> (\<forall>dt. bytes_to_dtype (of_nat w) = Inr dt \<and> dispatch dt \<longrightarrow>
                get_all_items dispatch (CacheLibCache_new (m_cache_config st) ram)
                  = Inr (\<lparr>t1_dtype = kLong, t1_data = []\<rparr>,
                         \<lparr>t2_dtype = dt, t2_dim = max_D (m_cache_config st), t2_rows = []\<rparr>,
                         \<lparr>t1_dtype = kLong, t1_data = [Some 0]\<rparr>))
          \<and> (v \<notin> {1, 2, 4, 8} \<longrightarrow>
               get_all_items dispatch st = Inl (runtime_error ''Unsupported dtype'')
               \<and> get_all_items dispatch (CacheLibCache_new (m_cache_config st) ram)
                   = Inl (runtime_error ''Unsupported dtype'')))"
proof -
  let ?cfg = "m_cache_config st"
  let ?w = "item_size_bytes ?cfg div max_D ?cfg"
  let ?v = "?w mod 2 ^ 32"
  have a: "bytes_to_dtype (of_nat ?w) =
            (if ?v = 1 then Inr kByte else if ?v = 2 then Inr kHalf
             else if ?v = 4 then Inr kFloat else if ?v = 8 then Inr kDouble
             else Inl (runtime_error ''Unsupported dtype''))"
    by (rule bytes_to_dtype_of_nat)
  have b: "?w < 2 ^ 32 \<longrightarrow> ?v = ?w" by simp
  have c: "\<forall>ix ws n. get_all_items dispatch st = Inr (ix, ws, n)
             \<longrightarrow> bytes_to_dtype (of_nat ?w) = Inr (t2_dtype ws)"
    by (auto simp: get_all_items_def Let_def dest: get_all_items_scan_dtype)
  have d: "\<forall>dt. bytes_to_dtype (of_nat ?w) = Inr dt \<and> dispatch dt \<longrightarrow>
                get_all_items dispatch (CacheLibCache_new ?cfg ram)
                  = Inr (\<lparr>t1_dtype = kLong, t1_data = []\<rparr>,
                         \<lparr>t2_dtype = dt, t2_dim = max_D ?cfg, t2_rows = []\<rparr>,
                         \<lparr>t1_dtype = kLong, t1_data = [Some 0]\<rparr>)"
    using assms by (auto intro!: get_all_items_new simp: supported_rows_def)
  have e: "get_all_items dispatch st = Inl (runtime_error ''Unsupported dtype'')"
    "get_all_items dispatch (CacheLibCache_new ?cfg ram) = Inl (runtime_error ''Unsupported dtype'')"
    if "?v \<notin> {1, 2, 4, 8}"
  proof -
    from that have u: "bytes_to_dtype (of_nat ?w) = Inl (runtime_error ''Unsupported dtype'')"
      by (simp add: bytes_to_dtype_of_nat)
    show "get_all_items dispatch st = Inl (runtime_error ''Unsupported dtype'')"
      unfolding get_all_items_def Let_def
      by (rule get_all_items_scan_unsupported [OF assms u])
    have "m_cache_config (CacheLibCache_new ?cfg ram) = ?cfg"
      by (simp add: CacheLibCache_new_eq)
    then show "get_all_items dispatch (CacheLibCache_new ?cfg ram)
                 = Inl (runtime_error ''Unsupported dtype'')"
      unfolding get_all_items_def Let_def
      using get_all_items_scan_unsupported [OF assms u] by simp
  qed
  show ?thesis unfolding Let_def using a b c d e by blast
qed

text \<open>
  Two engines, fresh from the constructor: rows of three bytes with one element are
  refused by the call, rows of eight bytes with two elements come out as single precision.
\<close>

theorem get_all_items_infers_dtype_witness:
  "get_all_items float_half_and_byte
      (CacheLibCache_new
         \<lparr>cache_size_bytes = 1024, item_size_bytes = 3, num_shards = 2, max_D = 1\<rparr> 1000)
     = Inl (runtime_error ''Unsupported dtype'')
   \<and> get_all_items float_half_and_byte
        (CacheLibCache_new
           \<lparr>cache_size_bytes = 1024, item_size_bytes = 8, num_shards = 2, max_D = 2\<rparr> 1000)
       = Inr (\<lparr>t1_dtype = kLong, t1_data = []\<rparr>,
              \<lparr>t2_dtype = kFloat, t2_dim = 2, t2_rows = []\<rparr>,
              \<lparr>t1_dtype = kLong, t1_data = [Some 0]\<rparr>)"
proof -
  let ?c3 = "\<lparr>cache_size_bytes = 1024, item_size_bytes = 3, num_shards = 2, max_D = 1\<rparr>"
  let ?c4 = "\<lparr>cache_size_bytes = 1024, item_size_bytes = 8, num_shards = 2, max_D = 2\<rparr>"
  have "0 < max_D (m_cache_config (CacheLibCache_new ?c3 1000))"
    by (simp add: CacheLibCache_new_eq)
  from get_all_items_infers_dtype [OF this, of float_half_and_byte 1000]
  have 1: "get_all_items float_half_and_byte (CacheLibCache_new ?c3 1000)
             = Inl (runtime_error ''Unsupported dtype'')"
    by (simp add: CacheLibCache_new_eq Let_def)
  have "0 < max_D (m_cache_config (CacheLibCache_new ?c4 1000))"
    by (simp add: CacheLibCache_new_eq)
  from get_all_items_infers_dtype [OF this, of float_half_and_byte 1000]
  have 2: "get_all_items float_half_and_byte (CacheLibCache_new ?c4 1000)
       = Inr (\<lparr>t1_dtype = kLong, t1_data = []\<rparr>,
              \<lparr>t2_dtype = kFloat, t2_dim = 2, t2_rows = []\<rparr>,
              \<lparr>t1_dtype = kLong, t1_data = [Some 0]\<rparr>)"
    by (simp add: CacheLibCache_new_eq Let_def float_half_and_byte_def)
  from 1 2 show ?thesis by blast
qed

text \<open>
  C6, as the specification words it, fails for a width outside the 32-bit range: rows of
  \<open>2 ^ 32 + 4\<close> bytes with one element are a width other than 1, 2, 4 and 8, yet the
  narrowed width is 4 and the call returns rows of single precision.
\<close>

theorem get_all_items_infers_dtype_counterexample:
  "get_all_items float_half_and_byte
      (CacheLibCache_new
         \<lparr>cache_size_bytes = 1024, item_size_bytes = 4294967300, num_shards = 2, max_D = 1\<rparr>
         1000)
     = Inr (\<lparr>t1_dtype = kLong, t1_data = []\<rparr>,
            \<lparr>t2_dtype = kFloat, t2_dim = 1, t2_rows = []\<rparr>,
            \<lparr>t1_dtype = kLong, t1_data = [Some 0]\<rparr>)"
  using get_all_items_new [of float_half_and_byte
      "\<lparr>cache_size_bytes = 1024, item_size_bytes = 4294967300, num_shards = 2, max_D = 1\<rparr>"
      kFloat 1000]
  by (simp add: supported_rows_def bytes_to_dtype_def float_half_and_byte_def)

subsection \<open>A put that gets no memory\<close>








subsection \<open>The scan of get\_all\_items\<close>

lemma scan_items_Inr:
  assumes "scan_items nb i its (ks, rs) = Inr (j, ks', rs')"
  shows "j = i + length its \<and> length ks' = length ks \<and> length rs' = length rs
         \<and> (\<forall>it \<in> set its. nb \<le> length (getMemory it))
         \<and> (its = [] \<or> i + length its \<le> length ks)"
  using assms
proof (induction its arbitrary: i ks rs)
  case Nil
  then show ?case by simp
next
  case (Cons it its)
  from Cons.prems obtain key where key: "read_int64 (getKey it) = Some key"
    by (auto split: option.splits)
  from Cons.prems key have b: "nb \<le> length (getMemory it)" and i: "i < length ks"
    and rest: "scan_items nb (i + 1) its
                 (ks[i := Some (sint key)], rs[i := Some (take nb (getMemory it))])
               = Inr (j, ks', rs')"
    by (auto split: if_splits)
  from Cons.IH [OF rest] b i show ?case by auto
qed

lemma scan_items_Inl:
  assumes "scan_items nb i its (ks, rs) = Inl e"
  shows "e = out_of_bounds"
  using assms
proof (induction its arbitrary: i ks rs)
  case Nil
  then show ?case by simp
next
  case (Cons it its)
  then show ?case by (auto split: option.splits if_splits)
qed

lemma scan_items_ok:
  assumes "\<forall>it \<in> set its. length (getKey it) = 8 \<and> nb \<le> length (getMemory it)"
    and "length its \<le> n" and "length rw = length kw"
  shows "scan_items nb (length kw) its (kw @ replicate n None, rw @ replicate n None)
           = Inr (length kw + length its,
                  kw @ map captured_key its @ replicate (n - length its) None,
                  rw @ map (\<lambda>it. Some (take nb (getMemory it))) its @ replicate (n - length its) None)"
  using assms
proof (induction its arbitrary: kw rw n)
  case Nil
  then show ?case by simp
next
  case (Cons it its)
  from Cons.prems have n: "0 < n" and m: "length its \<le> n - 1" by simp_all
  from Cons.prems obtain key where key: "read_int64 (getKey it) = Some key"
    by (auto simp: read_int64_def)
  have u1: "(kw @ replicate n None)[length kw := Some (sint key)]
              = (kw @ [Some (sint key)]) @ replicate (n - 1) None"
    using n by (rule update_first_free)
  have u2: "(rw @ replicate n None)[length kw := Some (take nb (getMemory it))]
              = (rw @ [Some (take nb (getMemory it))]) @ replicate (n - 1) None"
    using update_first_free [OF n, of rw None] Cons.prems(3) by simp
  have w: "\<forall>it \<in> set its. length (getKey it) = 8 \<and> nb \<le> length (getMemory it)"
    using Cons.prems(1) by simp
  have l: "length (rw @ [Some (take nb (getMemory it))]) = length (kw @ [Some (sint key)])"
    using Cons.prems(3) by simp
  have "scan_items nb (length kw) (it # its) (kw @ replicate n None, rw @ replicate n None)
          = scan_items nb (length (kw @ [Some (sint key)])) its
              ((kw @ [Some (sint key)]) @ replicate (n - 1) None,
               (rw @ [Some (take nb (getMemory it))]) @ replicate (n - 1) None)"
    using Cons.prems n key by (simp add: u1 u2 del: append_assoc)
  also note Cons.IH [OF w m l]
  finally show ?case using n by (simp add: captured_key_def key)
qed

lemma length_filter_disjoint:
  assumes "\<And>x. x \<in> set xs \<Longrightarrow> \<not> (P x \<and> Q x)"
  shows "length (filter P xs) + length (filter Q xs) = length (filter (\<lambda>x. P x \<or> Q x) xs)"
  using assms by (induction xs) auto

lemma count_by_pool:
  assumes "distinct ids"
  shows "sum_list (map (\<lambda>p. length (filter (\<lambda>it. poolId it = p) xs)) ids)
           = length (filter (\<lambda>it. poolId it \<in> set ids) xs)"
  using assms
proof (induction ids)
  case Nil
  then show ?case by simp
next
  case (Cons p ps)
  then have "p \<notin> set ps" and "distinct ps" by simp_all
  from \<open>p \<notin> set ps\<close>
  have "length (filter (\<lambda>it. poolId it = p) xs) + length (filter (\<lambda>it. poolId it \<in> set ps) xs)
          = length (filter (\<lambda>it. poolId it = p \<or> poolId it \<in> set ps) xs)"
    by (intro length_filter_disjoint) auto
  with Cons.IH [OF \<open>distinct ps\<close>] show ?case by simp
qed

lemma count_fold:
  "foldl (\<lambda>total pool_id. total + of_nat (f pool_id)) (acc :: 32 word) ids
     = acc + of_nat (sum_list (map f ids))"
  by (induction ids arbitrary: acc) (simp_all add: add.assoc)

lemma total_num_items:
  assumes "engine_inv st"
  shows "foldl (\<lambda>total pool_id. total + of_nat (numItems (m_cache st) pool_id)) (0 :: 32 word)
           (m_pool_ids st) = of_nat (length (items (m_cache st)))"
proof -
  from assms have d: "distinct (m_pool_ids st)"
    and a: "\<forall>it \<in> set (items (m_cache st)). poolId it \<in> set (m_pool_ids st)"
    by (simp_all add: engine_inv_def)
  have "sum_list (map (numItems (m_cache st)) (m_pool_ids st))
          = length (filter (\<lambda>it. poolId it \<in> set (m_pool_ids st)) (items (m_cache st)))"
    using count_by_pool [OF d, of "items (m_cache st)"] by (simp add: numItems_def [abs_def])
  also have "\<dots> = length (items (m_cache st))"
    using a by simp
  finally show ?thesis by (simp add: count_fold)
qed

lemma get_all_items_unmutated:
  assumes "engine_inv st"
  shows "get_all_items dispatch st =
           get_all_items_scan dispatch (m_cache_config st)
             (of_nat (length (items (m_cache st)))) (items (m_cache st))"
  by (simp add: get_all_items_def Let_def total_num_items [OF assms])

lemma engine_inv_new: "engine_inv (CacheLibCache_new cfg ram)"
  by (simp add: engine_inv_def CacheLibCache_new_eq)

lemma engine_inv_put:
  assumes "engine_inv st" and "put hash_shard dispatch st k r reply = Inr (ok, st')"
  shows "engine_inv st'"
proof -
  from assms(2) obtain pid where pid: "get_pool_id hash_shard st k = Inr pid"
    by (auto simp: put_def Let_def split: sum.splits)
  then have mem: "pid \<in> set (m_pool_ids st)"
    by (auto simp: get_pool_id_def Let_def split: if_splits)
  from assms(2) pid obtain st1 h where
    al: "allocate dispatch st pid (key_bytes k) (length r) reply = Inr (st1, h)"
    by (auto simp: put_def Let_def split: sum.splits)
  note a = allocate_Inr [OF al]
  from assms(1) a have i1: "engine_inv st1"
    by (simp add: engine_inv_def)
  show ?thesis
  proof (cases h)
    case None
    with assms(2) pid al have "st' = st1\<lparr>xlog := xlog st1 @
      [''Failed to allocate item '' @ show_int (sint k) @ '' in cache, skip'']\<rparr>"
      by (simp add: put_def)
    with i1 show ?thesis by (simp add: engine_inv_def)
  next
    case (Some item)
    with a have item: "poolId item = pid" "getKey item = key_bytes k"
      by (auto split: if_splits)
    from assms(2) pid al Some obtain item' where
      ins: "insertOrReplace dispatch st1 item' = Inr st'"
      and item': "poolId item' = poolId item" "getKey item' = getKey item"
      by (auto simp: put_def split: sum.splits)
    from insertOrReplace_Inr [OF ins] i1 item item' mem a show ?thesis
      by (simp add: engine_inv_def length_key_bytes)
  qed
qed

lemma engine_inv_reset: "engine_inv (reset_eviction_states st) = engine_inv st"
  by (simp add: engine_inv_def reset_eviction_states_def)

lemma engine_inv_init:
  assumes "init_tensor_for_l2_eviction st indices weights count = Inr st'"
  shows "engine_inv st' = engine_inv st"
  using assms
  by (auto simp: init_tensor_for_l2_eviction_def engine_inv_def Let_def
      split: if_splits list.splits)

lemma engine_inv_put_batch:
  assumes "engine_inv st" and "put_batch hash_shard dispatch st ops = Inr st'"
  shows "engine_inv st'"
  using assms
proof (induction ops arbitrary: st)
  case Nil
  then show ?case by simp
next
  case (Cons op ops)
  obtain k r reply where op: "op = (k, r, reply)" by (cases op)
  from Cons.prems(2) obtain ok st1 where p: "put hash_shard dispatch st k r reply = Inr (ok, st1)"
    and rest: "put_batch hash_shard dispatch st1 ops = Inr st'"
    by (auto simp: op split: sum.splits)
  from engine_inv_put [OF Cons.prems(1) p] rest show ?case by (rule Cons.IH)
qed

lemma get_all_items_scan_ok:
  assumes "supported_rows dispatch cfg dt"
    and "\<forall>it \<in> set visited. length (getKey it) = 8 \<and> row_bytes cfg dt \<le> length (getMemory it)"
    and "int (length visited) \<le> sint tot"
  shows "get_all_items_scan dispatch cfg tot visited =
           (if sint tot \<noteq> int (length visited) then Inl check_failed
            else Inr (\<lparr>t1_dtype = kLong, t1_data = map captured_key visited\<rparr>,
                      \<lparr>t2_dtype = dt, t2_dim = max_D cfg,
                       t2_rows = map (\<lambda>it. Some (take (row_bytes cfg dt) (getMemory it))) visited\<rparr>,
                      \<lparr>t1_dtype = kLong, t1_data = [Some (sint tot)]\<rparr>))"
proof -
  let ?n = "nat (sint tot)"
  from assms(3) have nn: "\<not> sint tot < 0" and le: "length visited \<le> ?n" by simp_all
  from assms(2) have w: "\<forall>it \<in> set visited. length (getKey it) = 8
      \<and> max_D cfg * elementSize dt \<le> length (getMemory it)"
    by (simp add: row_bytes_def)
  have "scan_items (max_D cfg * elementSize dt) (length ([] :: int option list)) visited
          ([] @ replicate ?n None, [] @ replicate ?n None)
        = Inr (length ([] :: int option list) + length visited,
               [] @ map captured_key visited @ replicate (?n - length visited) None,
               [] @ map (\<lambda>it. Some (take (max_D cfg * elementSize dt) (getMemory it))) visited
                  @ replicate (?n - length visited) None)"
    by (rule scan_items_ok [OF w le]) simp
  then have s: "scan_items (max_D cfg * elementSize dt) 0 visited
                  (replicate ?n None, replicate ?n None)
        = Inr (length visited,
               map captured_key visited @ replicate (?n - length visited) None,
               map (\<lambda>it. Some (take (max_D cfg * elementSize dt) (getMemory it))) visited
                  @ replicate (?n - length visited) None)"
    by simp
  show ?thesis
  proof (cases "sint tot = int (length visited)")
    case True
    then have "?n = length visited" by simp
    with assms(1) nn s True show ?thesis
      by (simp add: supported_rows_def get_all_items_scan_def at_empty1_def at_empty2_def
          row_bytes_def Let_def)
  next
    case False
    with assms(1) nn s show ?thesis
      by (simp add: supported_rows_def get_all_items_scan_def at_empty1_def at_empty2_def
          row_bytes_def Let_def)
  qed
qed

lemma get_all_items_scan_Inr:
  assumes "get_all_items_scan dispatch cfg tot visited = Inr (ix, ws, n)"
  shows "sint tot = int (length visited)
         \<and> n = \<lparr>t1_dtype = kLong, t1_data = [Some (int (length visited))]\<rparr>
         \<and> length (t1_data ix) = length visited \<and> length (t2_rows ws) = length visited
         \<and> (\<forall>it \<in> set visited. max_D cfg * elementSize (t2_dtype ws) \<le> length (getMemory it))"
proof -
  from assms obtain dt j ks rs where
    s: "scan_items (max_D cfg * elementSize dt) 0 visited
          (replicate (nat (sint tot)) None, replicate (nat (sint tot)) None) = Inr (j, ks, rs)"
    and r: "sint tot = int j" "ix = \<lparr>t1_dtype = kLong, t1_data = ks\<rparr>" "t2_rows ws = rs"
      "n = \<lparr>t1_dtype = kLong, t1_data = [Some (sint tot)]\<rparr>" "t2_dtype ws = dt"
    by (auto simp: get_all_items_scan_def Let_def at_empty1_def at_empty2_def
        split: if_splits sum.splits prod.splits)
  from scan_items_Inr [OF s] r show ?thesis by simp
qed


subsection \<open>An engine with very many items\<close>


lemma filter_no_match:
  assumes "find P xs = None"
  shows "filter (\<lambda>x. \<not> P x) xs = xs"
  using assms by (induction xs) (auto split: if_splits)

lemma put_fresh_key:
  assumes "hash_shard k (length (m_pool_ids st)) < length (m_pool_ids st)"
    and "granted reply" and "evicted reply = []"
    and "cache_find (m_cache st) (key_bytes k) = None"
  shows "put hash_shard dispatch st k r reply =
           Inr (True, st\<lparr>m_cache := (m_cache st)\<lparr>items :=
                  \<lparr>poolId = m_pool_ids st ! hash_shard k (length (m_pool_ids st)),
                   getKey = key_bytes k, getMemory = r\<rparr> # items (m_cache st)\<rparr>\<rparr>)"
proof -
  from assms(4) have "filter (\<lambda>it. getKey it \<noteq> key_bytes k) (items (m_cache st)) = items (m_cache st)"
    unfolding cache_find_def by (rule filter_no_match)
  with assms show ?thesis
    by (simp add: put_def get_pool_id_def get_shard_id_def allocate_def insertOrReplace_def
        memcpy_def Let_def)
qed









subsection \<open>The consistency check of get\_all\_items\<close>






subsection \<open>Rows of another size than the configured one\<close>

lemma get_all_items_scan_short:
  assumes "supported_rows dispatch cfg dt"
    and "\<exists>it \<in> set visited. length (getMemory it) < row_bytes cfg dt"
  shows "get_all_items_scan dispatch cfg tot visited \<noteq> Inr res"
proof
  assume r: "get_all_items_scan dispatch cfg tot visited = Inr res"
  obtain ix ws n where res: "res = (ix, ws, n)" by (cases res)
  from get_all_items_scan_dtype [OF r [unfolded res]] assms(1) have "t2_dtype ws = dt"
    by (simp add: supported_rows_def)
  with get_all_items_scan_Inr [OF r [unfolded res]] assms(2) show False
    by (auto simp: row_bytes_def)
qed

lemma get_all_items_scan_short_read:
  assumes "supported_rows dispatch cfg dt"
    and "\<exists>it \<in> set visited. length (getMemory it) < row_bytes cfg dt"
    and "0 \<le> sint tot"
  shows "get_all_items_scan dispatch cfg tot visited = Inl out_of_bounds"
proof (cases "scan_items (max_D cfg * elementSize dt) 0 visited
                (replicate (nat (sint tot)) None, replicate (nat (sint tot)) None)")
  case (Inl e)
  with assms(1,3) scan_items_Inl [OF Inl] show ?thesis
    by (simp add: supported_rows_def get_all_items_scan_def Let_def at_empty1_def at_empty2_def)
next
  case r: (Inr res)
  obtain j ks rs where res: "res = (j, ks, rs)" by (cases res)
  from scan_items_Inr [OF r [unfolded res]] assms(2) have False
    by (auto simp: row_bytes_def)
  then show ?thesis ..
qed

lemma eviction_cb_short_row:
  assumes "capturing st dt D kw rw n" and "dispatch dt" and "0 < n"
    and "length (getKey it) = 8" and "length (getMemory it) < D * elementSize dt"
  shows "eviction_cb dispatch st \<lparr>rm_context = kEviction, rm_item = it\<rparr> = Inl out_of_bounds"
  using assms by (simp add: eviction_cb_def capturing_def read_int64_def Let_def)

lemma capturing_rows_unique:
  assumes "capturing st dt D kw rw n" and "capturing st dt D kw' rw' n"
  shows "rw' = rw"
  using assms by (simp add: capturing_def)

text \<open>
  C10, as the code has it. \<^verbatim>\<open>put\<close> looks at neither \<open>item_size_bytes\<close> nor \<open>max_D\<close>: for a
  key that is not cached, a reply that grants memory and evicts nothing, and a key that
  routes to a pool, it stores the row it is given, of any length, and whenever it returns
  true the item under the key has exactly the bytes of the row. \<^verbatim>\<open>get_all_items\<close>, with a
  usable configuration, reads \<open>row_bytes\<close> bytes of every item. An item that is shorter
  keeps it from returning tensors, and on a reachable engine with fewer than \<open>2 ^ 31\<close>
  items the call reads out of bounds. On such an engine whose items are all long enough,
  longer ones included, it returns the first \<open>row_bytes\<close> bytes of each; and on a reachable
  engine the rows it returns are the stored rows exactly when every item has \<open>row_bytes\<close>
  bytes. The eviction callback does the same with the dimensions of the capture buffer: a
  shorter item is read out of bounds, a longer one is cut to the row size of the buffer,
  and the slot it writes holds the stored row exactly when the item has \<open>D\<close> elements of
  the buffer's scalar type.
\<close>

theorem put_does_not_validate_row_size:
  "(hash_shard k (length (m_pool_ids st)) < length (m_pool_ids st) \<and> granted reply
      \<and> evicted reply = [] \<and> cache_find (m_cache st) (key_bytes k) = None
      \<longrightarrow> put hash_shard dispatch st k r reply =
            Inr (True, st\<lparr>m_cache := (m_cache st)\<lparr>items :=
                   \<lparr>poolId = m_pool_ids st ! hash_shard k (length (m_pool_ids st)),
                    getKey = key_bytes k, getMemory = r\<rparr> # items (m_cache st)\<rparr>\<rparr>))
   \<and> (\<forall>st'. put hash_shard dispatch st k r reply = Inr (True, st')
         \<longrightarrow> map_option getMemory (cache_find (m_cache st') (key_bytes k)) = Some r)
   \<and> (supported_rows dispatch (m_cache_config st) dt \<longrightarrow>
        ((\<exists>it \<in> set (items (m_cache st)). length (getMemory it) < row_bytes (m_cache_config st) dt)
           \<longrightarrow> (\<forall>res. get_all_items dispatch st \<noteq> Inr res)
               \<and> (engine_inv st \<and> length (items (m_cache st)) < 2 ^ 31
                    \<longrightarrow> get_all_items dispatch st = Inl out_of_bounds))
        \<and> (engine_inv st \<and> length (items (m_cache st)) < 2 ^ 31
             \<and> (\<forall>it \<in> set (items (m_cache st)). row_bytes (m_cache_config st) dt \<le> length (getMemory it))
           \<longrightarrow> get_all_items dispatch st
                 = Inr (\<lparr>t1_dtype = kLong, t1_data = map captured_key (items (m_cache st))\<rparr>,
                        \<lparr>t2_dtype = dt, t2_dim = max_D (m_cache_config st),
                         t2_rows = map (\<lambda>it. Some (take (row_bytes (m_cache_config st) dt) (getMemory it)))
                                     (items (m_cache st))\<rparr>,
                        \<lparr>t1_dtype = kLong, t1_data = [Some (int (length (items (m_cache st))))]\<rparr>))
        \<and> (engine_inv st \<longrightarrow>
             (\<forall>ix ws n. get_all_items dispatch st = Inr (ix, ws, n) \<longrightarrow>
                (t2_rows ws = map (\<lambda>it. Some (getMemory it)) (items (m_cache st))
                 \<longleftrightarrow> (\<forall>it \<in> set (items (m_cache st)).
                        length (getMemory it) = row_bytes (m_cache_config st) dt)))))
   \<and> (capturing st dt' D kw rw n \<and> dispatch dt' \<and> 0 < n \<and> length (getKey it) = 8 \<longrightarrow>
        (length (getMemory it) < D * elementSize dt'
           \<longrightarrow> eviction_cb dispatch st \<lparr>rm_context = kEviction, rm_item = it\<rparr> = Inl out_of_bounds)
        \<and> (\<forall>st'. eviction_cb dispatch st \<lparr>rm_context = kEviction, rm_item = it\<rparr> = Inr st' \<longrightarrow>
              capturing st' dt' D (kw @ [captured_key it])
                (rw @ [Some (take (D * elementSize dt') (getMemory it))]) (n - 1)
              \<and> (capturing st' dt' D (kw @ [captured_key it]) (rw @ [Some (getMemory it)]) (n - 1)
                 \<longleftrightarrow> length (getMemory it) = D * elementSize dt')))"
proof (intro conjI impI allI)
  assume "hash_shard k (length (m_pool_ids st)) < length (m_pool_ids st) \<and> granted reply
      \<and> evicted reply = [] \<and> cache_find (m_cache st) (key_bytes k) = None"
  then show "put hash_shard dispatch st k r reply =
            Inr (True, st\<lparr>m_cache := (m_cache st)\<lparr>items :=
                   \<lparr>poolId = m_pool_ids st ! hash_shard k (length (m_pool_ids st)),
                    getKey = key_bytes k, getMemory = r\<rparr> # items (m_cache st)\<rparr>\<rparr>)"
    by (intro put_fresh_key) simp_all
next
  fix st' assume "put hash_shard dispatch st k r reply = Inr (True, st')"
  from put_True [OF this]
  show "map_option getMemory (cache_find (m_cache st') (key_bytes k)) = Some r"
    by (auto simp: cache_find_def)
next
  fix res
  assume s: "supported_rows dispatch (m_cache_config st) dt"
    and "\<exists>it \<in> set (items (m_cache st)). length (getMemory it) < row_bytes (m_cache_config st) dt"
  then show "get_all_items dispatch st \<noteq> Inr res"
    unfolding get_all_items_def Let_def by (rule get_all_items_scan_short)
next
  assume s: "supported_rows dispatch (m_cache_config st) dt"
    and e: "\<exists>it \<in> set (items (m_cache st)). length (getMemory it) < row_bytes (m_cache_config st) dt"
    and a: "engine_inv st \<and> length (items (m_cache st)) < 2 ^ 31"
  then have "0 \<le> sint (of_nat (length (items (m_cache st))) :: 32 word)"
    by (simp add: sint_of_nat32_small)
  with s e have "get_all_items_scan dispatch (m_cache_config st)
                   (of_nat (length (items (m_cache st)))) (items (m_cache st)) = Inl out_of_bounds"
    by (rule get_all_items_scan_short_read)
  with a show "get_all_items dispatch st = Inl out_of_bounds"
    by (simp add: get_all_items_unmutated)
next
  assume s: "supported_rows dispatch (m_cache_config st) dt"
    and a: "engine_inv st \<and> length (items (m_cache st)) < 2 ^ 31
             \<and> (\<forall>it \<in> set (items (m_cache st)). row_bytes (m_cache_config st) dt \<le> length (getMemory it))"
  then have w: "\<forall>it \<in> set (items (m_cache st)). length (getKey it) = 8
                  \<and> row_bytes (m_cache_config st) dt \<le> length (getMemory it)"
    by (simp add: engine_inv_def)
  from a have t: "sint (of_nat (length (items (m_cache st))) :: 32 word)
                    = int (length (items (m_cache st)))"
    by (simp add: sint_of_nat32_small)
  from a get_all_items_scan_ok [OF s w, of "of_nat (length (items (m_cache st)))"]
  show "get_all_items dispatch st
                 = Inr (\<lparr>t1_dtype = kLong, t1_data = map captured_key (items (m_cache st))\<rparr>,
                        \<lparr>t2_dtype = dt, t2_dim = max_D (m_cache_config st),
                         t2_rows = map (\<lambda>it. Some (take (row_bytes (m_cache_config st) dt) (getMemory it)))
                                     (items (m_cache st))\<rparr>,
                        \<lparr>t1_dtype = kLong, t1_data = [Some (int (length (items (m_cache st))))]\<rparr>)"
    by (simp add: get_all_items_unmutated t)
next
  fix ix ws n
  assume s: "supported_rows dispatch (m_cache_config st) dt" and i: "engine_inv st"
    and g: "get_all_items dispatch st = Inr (ix, ws, n)"
  let ?rb = "row_bytes (m_cache_config st) dt"
  have ge: "\<forall>it \<in> set (items (m_cache st)). ?rb \<le> length (getMemory it)"
  proof (rule ccontr)
    assume "\<not> ?thesis"
    then have "\<exists>it \<in> set (items (m_cache st)). length (getMemory it) < ?rb"
      by (simp add: not_le)
    from get_all_items_scan_short [OF s this] g show False
      by (simp add: get_all_items_def Let_def)
  qed
  with i have w: "\<forall>it \<in> set (items (m_cache st)). length (getKey it) = 8
                  \<and> ?rb \<le> length (getMemory it)"
    by (simp add: engine_inv_def)
  from g i have g': "get_all_items_scan dispatch (m_cache_config st)
                       (of_nat (length (items (m_cache st)))) (items (m_cache st)) = Inr (ix, ws, n)"
    by (simp add: get_all_items_unmutated)
  from get_all_items_scan_Inr [OF g']
  have t: "sint (of_nat (length (items (m_cache st))) :: 32 word)
             = int (length (items (m_cache st)))"
    by simp
  from get_all_items_scan_ok [OF s w, of "of_nat (length (items (m_cache st)))"] g' t
  have rows: "t2_rows ws = map (\<lambda>it. Some (take ?rb (getMemory it))) (items (m_cache st))"
    by auto
  show "t2_rows ws = map (\<lambda>it. Some (getMemory it)) (items (m_cache st))
          \<longleftrightarrow> (\<forall>it \<in> set (items (m_cache st)). length (getMemory it) = ?rb)"
  proof
    assume "t2_rows ws = map (\<lambda>it. Some (getMemory it)) (items (m_cache st))"
    then have "\<forall>it \<in> set (items (m_cache st)). take ?rb (getMemory it) = getMemory it"
      by (simp add: rows)
    then have "\<forall>it \<in> set (items (m_cache st)). length (getMemory it) \<le> ?rb"
      by simp
    with ge show "\<forall>it \<in> set (items (m_cache st)). length (getMemory it) = ?rb"
      by (meson le_antisym)
  next
    assume "\<forall>it \<in> set (items (m_cache st)). length (getMemory it) = ?rb"
    then show "t2_rows ws = map (\<lambda>it. Some (getMemory it)) (items (m_cache st))"
      by (simp add: rows)
  qed
next
  assume "capturing st dt' D kw rw n \<and> dispatch dt' \<and> 0 < n \<and> length (getKey it) = 8"
    and "length (getMemory it) < D * elementSize dt'"
  then show "eviction_cb dispatch st \<lparr>rm_context = kEviction, rm_item = it\<rparr> = Inl out_of_bounds"
    by (intro eviction_cb_short_row [where dt = dt' and kw = kw and rw = rw and n = n]) simp_all
next
  fix st'
  assume a: "capturing st dt' D kw rw n \<and> dispatch dt' \<and> 0 < n \<and> length (getKey it) = 8"
    and e: "eviction_cb dispatch st \<lparr>rm_context = kEviction, rm_item = it\<rparr> = Inr st'"
  have ge: "D * elementSize dt' \<le> length (getMemory it)"
  proof (rule ccontr)
    assume "\<not> ?thesis"
    then have "length (getMemory it) < D * elementSize dt'" by simp
    with a have "eviction_cb dispatch st \<lparr>rm_context = kEviction, rm_item = it\<rparr> = Inl out_of_bounds"
      by (intro eviction_cb_short_row [where dt = dt' and kw = kw and rw = rw and n = n]) simp_all
    with e show False by simp
  qed
  from a ge eviction_cb_capturing_evict [where dispatch = dispatch and dt = dt' and st = st
      and D = D and kw = kw and rw = rw and n = n
      and d = "\<lparr>rm_context = kEviction, rm_item = it\<rparr>"] e
  show c: "capturing st' dt' D (kw @ [captured_key it])
             (rw @ [Some (take (D * elementSize dt') (getMemory it))]) (n - 1)"
    by simp
  show "capturing st' dt' D (kw @ [captured_key it]) (rw @ [Some (getMemory it)]) (n - 1)
          \<longleftrightarrow> length (getMemory it) = D * elementSize dt'"
  proof
    assume "capturing st' dt' D (kw @ [captured_key it]) (rw @ [Some (getMemory it)]) (n - 1)"
    from capturing_rows_unique [OF c this] have "take (D * elementSize dt') (getMemory it) = getMemory it"
      by simp
    with ge show "length (getMemory it) = D * elementSize dt'"
      by (metis length_take min.absorb2)
  next
    assume "length (getMemory it) = D * elementSize dt'"
    with c show "capturing st' dt' D (kw @ [captured_key it]) (rw @ [Some (getMemory it)]) (n - 1)"
      by simp
  qed
qed

text \<open>
  An engine configured for rows of one single-precision element takes a row of eight bytes
  and a row of two bytes. The first comes back whole from \<^verbatim>\<open>get\<close> and cut to four bytes
  from \<^verbatim>\<open>get_all_items\<close>; with the second in the cache \<^verbatim>\<open>get_all_items\<close> reads out of
  bounds, and so does the callback when that item is evicted into a buffer of such rows.
\<close>

theorem put_does_not_validate_row_size_witness:
  "\<exists>st8 st2.
     put modulo_shard float_half_and_byte
       example_engine
       1 [1, 2, 3, 4, 5, 6, 7, 8] \<lparr>evicted = [], granted = True\<rparr> = Inr (True, st8)
     \<and> get st8 1 = Some [1, 2, 3, 4, 5, 6, 7, 8]
     \<and> get_all_items float_half_and_byte st8
         = Inr (\<lparr>t1_dtype = kLong, t1_data = [Some 1]\<rparr>,
                \<lparr>t2_dtype = kFloat, t2_dim = 1, t2_rows = [Some [1, 2, 3, 4]]\<rparr>,
                \<lparr>t1_dtype = kLong, t1_data = [Some 1]\<rparr>)
     \<and> put modulo_shard float_half_and_byte
       example_engine
       2 [1, 2] \<lparr>evicted = [], granted = True\<rparr> = Inr (True, st2)
     \<and> get_all_items float_half_and_byte st2 = Inl out_of_bounds
     \<and> eviction_cb float_half_and_byte
         (example_engine
            \<lparr>m_evicted_indices_ptr := Some \<lparr>t1_dtype = kLong, t1_data = [Some (- 1)]\<rparr>,
             m_evicted_weights_ptr := Some \<lparr>t2_dtype = kFloat, t2_dim = 1, t2_rows = [None]\<rparr>\<rparr>)
         \<lparr>rm_context = kEviction,
          rm_item = \<lparr>poolId = 0, getKey = key_bytes 2, getMemory = [1, 2]\<rparr>\<rparr>
       = Inl out_of_bounds"
proof -
  let ?new = "example_engine"
  let ?ok = "\<lparr>evicted = [], granted = True\<rparr>"
  let ?it8 = "\<lparr>poolId = 1, getKey = key_bytes 1, getMemory = [1, 2, 3, 4, 5, 6, 7, 8]\<rparr>"
  let ?it2 = "\<lparr>poolId = 0, getKey = key_bytes 2, getMemory = [1, 2]\<rparr>"
  let ?st8 = "?new\<lparr>m_cache := (m_cache ?new)\<lparr>items := [?it8]\<rparr>\<rparr>"
  let ?st2 = "?new\<lparr>m_cache := (m_cache ?new)\<lparr>items := [?it2]\<rparr>\<rparr>"
  note fresh = put_does_not_validate_row_size [THEN conjunct1, rule_format]
  note export = put_does_not_validate_row_size [THEN conjunct2, THEN conjunct2, THEN conjunct1,
      rule_format]
  have p8: "put modulo_shard float_half_and_byte ?new 1 [1, 2, 3, 4, 5, 6, 7, 8] ?ok = Inr (True, ?st8)"
    using fresh [where hash_shard = modulo_shard and k = 1 and st = ?new and reply = ?ok
        and dispatch = float_half_and_byte and r = "[1, 2, 3, 4, 5, 6, 7, 8]"]
    by (simp add: example_engine_def CacheLibCache_new_eq modulo_shard_def cache_find_def)
  have p2: "put modulo_shard float_half_and_byte ?new 2 [1, 2] ?ok = Inr (True, ?st2)"
    using fresh [where hash_shard = modulo_shard and k = 2 and st = ?new and reply = ?ok
        and dispatch = float_half_and_byte and r = "[1, 2]"]
    by (simp add: example_engine_def CacheLibCache_new_eq modulo_shard_def cache_find_def)
  have i0: "engine_inv ?new"
    unfolding example_engine_def by (rule engine_inv_new)
  have i8: "engine_inv ?st8"
    using i0 p8 by (rule engine_inv_put)
  have i2: "engine_inv ?st2"
    using i0 p2 by (rule engine_inv_put)
  have s8: "supported_rows float_half_and_byte (m_cache_config ?st8) kFloat"
    and s2: "supported_rows float_half_and_byte (m_cache_config ?st2) kFloat"
    by (simp_all add: example_engine_def CacheLibCache_new_eq supported_rows_def bytes_to_dtype_def
        float_half_and_byte_def)
  have g8: "get_all_items float_half_and_byte ?st8
         = Inr (\<lparr>t1_dtype = kLong, t1_data = [Some 1]\<rparr>,
                \<lparr>t2_dtype = kFloat, t2_dim = 1, t2_rows = [Some [1, 2, 3, 4]]\<rparr>,
                \<lparr>t1_dtype = kLong, t1_data = [Some 1]\<rparr>)"
    using export [where dispatch = float_half_and_byte and st = ?st8 and dt = kFloat, OF s8,
        THEN conjunct2, THEN conjunct1] i8
    by (simp add: example_engine_def CacheLibCache_new_eq row_bytes_def captured_key_def read_int64_key_bytes)
  have g2: "get_all_items float_half_and_byte ?st2 = Inl out_of_bounds"
    using export [where dispatch = float_half_and_byte and st = ?st2 and dt = kFloat, OF s2,
        THEN conjunct1] i2
    by (simp add: example_engine_def CacheLibCache_new_eq row_bytes_def)
  let ?armed = "example_engine
            \<lparr>m_evicted_indices_ptr := Some \<lparr>t1_dtype = kLong, t1_data = [Some (- 1)]\<rparr>,
             m_evicted_weights_ptr := Some \<lparr>t2_dtype = kFloat, t2_dim = 1, t2_rows = [None]\<rparr>\<rparr>"
  note callback = put_does_not_validate_row_size [THEN conjunct2, THEN conjunct2, THEN conjunct2,
      rule_format, THEN conjunct1, rule_format]
  have e2: "eviction_cb float_half_and_byte ?armed \<lparr>rm_context = kEviction, rm_item = ?it2\<rparr>
              = Inl out_of_bounds"
    by (rule callback [where dt' = kFloat and D = 1 and kw = "[]" and rw = "[]" and n = 1])
      (simp_all add: capturing_def example_engine_def CacheLibCache_new_eq
        float_half_and_byte_def length_key_bytes)
  have "get ?st8 1 = Some [1, 2, 3, 4, 5, 6, 7, 8]"
    by (simp add: get_def cache_find_def)
  with p8 p2 g8 g2 e2 show ?thesis by blast
qed

text \<open>
  C10, as the specification words it, fails for a row that is longer than the configured
  size: in an engine configured for rows of four bytes, \<^verbatim>\<open>put\<close> stores a row of eight
  bytes, and both \<^verbatim>\<open>get_all_items\<close> and the eviction callback are defined on it: each
  returns normally, with the first four bytes of the row.
\<close>

theorem put_does_not_validate_row_size_counterexample:
  "put modulo_shard float_half_and_byte example_engine 1 [1, 2, 3, 4, 5, 6, 7, 8]
       \<lparr>evicted = [], granted = True\<rparr>
     = Inr (True, example_engine\<lparr>m_cache := (m_cache example_engine)\<lparr>items :=
              [\<lparr>poolId = 1, getKey = key_bytes 1, getMemory = [1, 2, 3, 4, 5, 6, 7, 8]\<rparr>]\<rparr>\<rparr>)
   \<and> item_size_bytes (m_cache_config example_engine) = 4
   \<and> get_all_items float_half_and_byte
       (example_engine\<lparr>m_cache := (m_cache example_engine)\<lparr>items :=
          [\<lparr>poolId = 1, getKey = key_bytes 1, getMemory = [1, 2, 3, 4, 5, 6, 7, 8]\<rparr>]\<rparr>\<rparr>)
     = Inr (\<lparr>t1_dtype = kLong, t1_data = [Some 1]\<rparr>,
            \<lparr>t2_dtype = kFloat, t2_dim = 1, t2_rows = [Some [1, 2, 3, 4]]\<rparr>,
            \<lparr>t1_dtype = kLong, t1_data = [Some 1]\<rparr>)
   \<and> eviction_cb float_half_and_byte
       (example_engine
          \<lparr>m_evicted_indices_ptr := Some \<lparr>t1_dtype = kLong, t1_data = [Some (- 1)]\<rparr>,
           m_evicted_weights_ptr := Some \<lparr>t2_dtype = kFloat, t2_dim = 1, t2_rows = [None]\<rparr>\<rparr>)
       \<lparr>rm_context = kEviction,
        rm_item = \<lparr>poolId = 1, getKey = key_bytes 1, getMemory = [1, 2, 3, 4, 5, 6, 7, 8]\<rparr>\<rparr>
     = Inr (example_engine
          \<lparr>m_evicted_indices_ptr := Some \<lparr>t1_dtype = kLong, t1_data = [Some 1]\<rparr>,
           m_evicted_weights_ptr := Some \<lparr>t2_dtype = kFloat, t2_dim = 1,
                                          t2_rows = [Some [1, 2, 3, 4]]\<rparr>,
           eviction_row_id := 1\<rparr>)"
proof -
  let ?it8 = "\<lparr>poolId = 1, getKey = key_bytes 1, getMemory = [1, 2, 3, 4, 5, 6, 7, 8]\<rparr>"
  let ?st8 = "example_engine\<lparr>m_cache := (m_cache example_engine)\<lparr>items := [?it8]\<rparr>\<rparr>"
  have p: "put modulo_shard float_half_and_byte example_engine 1 [1, 2, 3, 4, 5, 6, 7, 8]
             \<lparr>evicted = [], granted = True\<rparr> = Inr (True, ?st8)"
    using put_fresh_key [where hash_shard = modulo_shard and k = 1 and st = example_engine
        and reply = "\<lparr>evicted = [], granted = True\<rparr>" and dispatch = float_half_and_byte
        and r = "[1, 2, 3, 4, 5, 6, 7, 8]"]
    by (simp add: example_engine_def CacheLibCache_new_eq modulo_shard_def cache_find_def)
  have i0: "engine_inv example_engine"
    unfolding example_engine_def by (rule engine_inv_new)
  have i: "engine_inv ?st8"
    using i0 p by (rule engine_inv_put)
  have s: "supported_rows float_half_and_byte (m_cache_config ?st8) kFloat"
    by (simp add: example_engine_def CacheLibCache_new_eq supported_rows_def bytes_to_dtype_def
        float_half_and_byte_def)
  have w: "\<forall>it \<in> set (items (m_cache ?st8)). length (getKey it) = 8
             \<and> row_bytes (m_cache_config ?st8) kFloat \<le> length (getMemory it)"
    by (simp add: example_engine_def CacheLibCache_new_eq row_bytes_def length_key_bytes)
  have g: "get_all_items float_half_and_byte ?st8
     = Inr (\<lparr>t1_dtype = kLong, t1_data = [Some 1]\<rparr>,
            \<lparr>t2_dtype = kFloat, t2_dim = 1, t2_rows = [Some [1, 2, 3, 4]]\<rparr>,
            \<lparr>t1_dtype = kLong, t1_data = [Some 1]\<rparr>)"
    unfolding get_all_items_unmutated [OF i]
    using get_all_items_scan_ok [OF s w, of 1]
    by (simp add: example_engine_def CacheLibCache_new_eq row_bytes_def captured_key_def
        read_int64_key_bytes)
  have c: "item_size_bytes (m_cache_config example_engine) = 4"
    by (simp add: example_engine_def CacheLibCache_new_eq)
  have e: "eviction_cb float_half_and_byte
       (example_engine
          \<lparr>m_evicted_indices_ptr := Some \<lparr>t1_dtype = kLong, t1_data = [Some (- 1)]\<rparr>,
           m_evicted_weights_ptr := Some \<lparr>t2_dtype = kFloat, t2_dim = 1, t2_rows = [None]\<rparr>\<rparr>)
       \<lparr>rm_context = kEviction, rm_item = ?it8\<rparr>
     = Inr (example_engine
          \<lparr>m_evicted_indices_ptr := Some \<lparr>t1_dtype = kLong, t1_data = [Some 1]\<rparr>,
           m_evicted_weights_ptr := Some \<lparr>t2_dtype = kFloat, t2_dim = 1,
                                          t2_rows = [Some [1, 2, 3, 4]]\<rparr>,
           eviction_row_id := 1\<rparr>)"
    by (simp add: eviction_cb_def example_engine_def CacheLibCache_new_eq float_half_and_byte_def
        read_int64_key_bytes Let_def)
  from p c g e show ?thesis by simp
qed

end
